theory Spec2Isabelle
  imports Complex_Main
begin

section \<open>Python strings\<close>

text \<open>
  The crawler (\<^verbatim>\<open>src/esg_crawler/esg_crawler.py\<close>) works on Python \<^verbatim>\<open>str\<close> values.
  A \<^typ>\<open>char\<close> stands for a code point below 256 (Latin-1); the character classes below
  are those of \<^verbatim>\<open>str.isspace\<close>, \<^verbatim>\<open>str.isalpha\<close>, \<^verbatim>\<open>str.lower\<close> and of the
  \<^verbatim>\<open>re\<close> module on that range. Python floats are modelled as exact rationals.
\<close>

definition is_space :: "char \<Rightarrow> bool" where
  "is_space c = (let n = (of_char c :: nat) in
     (9 \<le> n \<and> n \<le> 13) \<or> (28 \<le> n \<and> n \<le> 32) \<or> n = 133 \<or> n = 160)"

definition is_digit :: "char \<Rightarrow> bool" where
  "is_digit c = (let n = (of_char c :: nat) in 48 \<le> n \<and> n \<le> 57)"

definition is_alpha :: "char \<Rightarrow> bool" where
  "is_alpha c = (let n = (of_char c :: nat) in
     (65 \<le> n \<and> n \<le> 90) \<or> (97 \<le> n \<and> n \<le> 122) \<or> n = 170 \<or> n = 181 \<or> n = 186 \<or>
     (192 \<le> n \<and> n \<le> 214) \<or> (216 \<le> n \<and> n \<le> 246) \<or> (248 \<le> n \<and> n \<le> 255))"

text \<open>\<^verbatim>\<open>\w\<close> of a \<^verbatim>\<open>str\<close> pattern: alphanumeric (\<^verbatim>\<open>str.isalnum\<close>) or underscore.\<close>

definition is_word :: "char \<Rightarrow> bool" where
  "is_word c = (let n = (of_char c :: nat) in
     is_alpha c \<or> is_digit c \<or> n = 95 \<or> n = 178 \<or> n = 179 \<or> n = 185 \<or>
     (188 \<le> n \<and> n \<le> 190))"

text \<open>\<^verbatim>\<open>str.lower\<close> on one code point: A-Z and the Latin-1 capitals move up by 32,
  which sets bit 5.\<close>

fun lower_char :: "char \<Rightarrow> char" where
  "lower_char (Char b0 b1 b2 b3 b4 b5 b6 b7) =
     (let n = (of_char (Char b0 b1 b2 b3 b4 b5 b6 b7) :: nat) in
      if (65 \<le> n \<and> n \<le> 90) \<or> (192 \<le> n \<and> n \<le> 222 \<and> n \<noteq> 215)
      then Char b0 b1 b2 b3 b4 True b6 b7
      else Char b0 b1 b2 b3 b4 b5 b6 b7)"

definition py_lower :: "string \<Rightarrow> string" where
  "py_lower s = map lower_char s"

definition py_strip :: "string \<Rightarrow> string" where
  "py_strip s = rev (dropWhile is_space (rev (dropWhile is_space s)))"

text \<open>\<^verbatim>\<open>s.startswith(p)\<close>; with \<open>ic\<close> the comparison ignores case, as a pattern
  compiled with \<^verbatim>\<open>re.IGNORECASE\<close> does.\<close>

fun starts :: "bool \<Rightarrow> string \<Rightarrow> string \<Rightarrow> bool" where
  "starts ic s [] = True"
| "starts ic [] (p # ps) = False"
| "starts ic (c # s) (p # ps) =
     ((if ic then lower_char c = lower_char p else c = p) \<and> starts ic s ps)"

definition startswith :: "string \<Rightarrow> string \<Rightarrow> bool" where
  "startswith s p = starts False s p"

text \<open>\<^verbatim>\<open>s.find(k)\<close> as an option (\<open>None\<close> for Python's -1) and \<^verbatim>\<open>k in s\<close>.\<close>

fun find_sub :: "string \<Rightarrow> string \<Rightarrow> nat option" where
  "find_sub k [] = (if k = [] then Some 0 else None)"
| "find_sub k (c # s) =
     (if startswith (c # s) k then Some 0 else map_option Suc (find_sub k s))"

definition py_find :: "string \<Rightarrow> string \<Rightarrow> int" where
  "py_find s k = (case find_sub k s of None \<Rightarrow> - 1 | Some i \<Rightarrow> int i)"

definition contains :: "string \<Rightarrow> string \<Rightarrow> bool" where
  "contains k s = (find_sub k s \<noteq> None)"

text \<open>\<^verbatim>\<open>s[a:b]\<close> for bounds that are not negative (every slice of the crawler clamps its
  lower bound with \<^verbatim>\<open>max(0, ...)\<close>).\<close>

definition slice :: "string \<Rightarrow> int \<Rightarrow> int \<Rightarrow> string" where
  "slice s a b = drop (nat a) (take (nat b) s)"

section \<open>Regular expressions\<close>

text \<open>
  The patterns of the crawler use literals, \<^verbatim>\<open>.\<close>, \<^verbatim>\<open>\d\<close>, \<^verbatim>\<open>\s\<close>, \<^verbatim>\<open>\b\<close>, sequence,
  alternation, greedy repetition and capture groups. The matcher is the backtracking
  matcher of \<^verbatim>\<open>re\<close>: it returns every way to match at the cursor, the preferred one
  first. A state is the text left of the cursor (reversed), the text right of it, and
  the groups captured so far (the latest capture of a group first).
\<close>

datatype rx =
    Eps
  | Lit string
  | Dot
  | Dig
  | Spc
  | WB
  | Seq rx rx
  | Alt rx rx
  | Star rx
  | Grp nat rx

type_synonym mstate = "string \<times> string \<times> (nat \<times> string) list"

definition one_char :: "(char \<Rightarrow> bool) \<Rightarrow> mstate \<Rightarrow> mstate list" where
  "one_char P st = (case st of (l, r, cs) \<Rightarrow>
     (case r of [] \<Rightarrow> [] | c # r' \<Rightarrow> if P c then [(c # l, r', cs)] else []))"

definition at_boundary :: "string \<Rightarrow> string \<Rightarrow> bool" where
  "at_boundary l r =
     ((case l of [] \<Rightarrow> False | c # _ \<Rightarrow> is_word c) \<noteq> (case r of [] \<Rightarrow> False | c # _ \<Rightarrow> is_word c))"

text \<open>A repetition gives up an iteration that consumed nothing; no starred pattern of
  the crawler can match the empty string.\<close>

fun rm :: "bool \<Rightarrow> rx \<Rightarrow> mstate \<Rightarrow> mstate list" where
  "rm ic Eps st = [st]"
| "rm ic (Lit p) (l, r, cs) =
     (if starts ic r p then [(rev (take (length p) r) @ l, drop (length p) r, cs)] else [])"
| "rm ic Dot st = one_char (\<lambda>c. c \<noteq> CHR 0x0A) st"
| "rm ic Dig st = one_char is_digit st"
| "rm ic Spc st = one_char is_space st"
| "rm ic WB (l, r, cs) = (if at_boundary l r then [(l, r, cs)] else [])"
| "rm ic (Seq a b) st = concat (map (rm ic b) (rm ic a st))"
| "rm ic (Alt a b) st = rm ic a st @ rm ic b st"
| "rm ic (Star a) st =
     concat (map (\<lambda>st'. if length (fst (snd st')) < length (fst (snd st))
                         then rm ic (Star a) st' else [])
                 (rm ic a st)) @ [st]"
| "rm ic (Grp k a) (l, r, cs) =
     map (\<lambda>(l', r', cs'). (l', r', (k, rev (take (length l' - length l) l')) # cs'))
         (rm ic a (l, r, cs))"

definition plus :: "rx \<Rightarrow> rx" where
  "plus a = Seq a (Star a)"

definition opt :: "rx \<Rightarrow> rx" where
  "opt a = Alt a Eps"

fun times :: "nat \<Rightarrow> rx \<Rightarrow> rx" where
  "times 0 a = Eps"
| "times (Suc n) a = Seq a (times n a)"

fun alts :: "string list \<Rightarrow> rx" where
  "alts [] = Eps"
| "alts [p] = Lit p"
| "alts (p # ps) = Alt (Lit p) (alts ps)"

record rmatch =
  m_start :: nat
  m_end :: nat
  m_text :: string
  m_groups :: "(nat \<times> string) list"

definition mk_match :: "string \<Rightarrow> mstate \<Rightarrow> rmatch" where
  "mk_match l st = (case st of (l', r', cs) \<Rightarrow>
     \<lparr>m_start = length l, m_end = length l',
      m_text = rev (take (length l' - length l) l'), m_groups = cs\<rparr>)"

text \<open>\<^verbatim>\<open>m.group(k)\<close>; \<^verbatim>\<open>re.findall\<close> gives the empty string for a group that took no part.\<close>

definition grp :: "rmatch \<Rightarrow> nat \<Rightarrow> string" where
  "grp m k = (case map_of (m_groups m) k of None \<Rightarrow> [] | Some g \<Rightarrow> g)"

text \<open>\<^verbatim>\<open>re.search\<close>: the first position, from the left, where the pattern matches.\<close>

fun re_scan :: "bool \<Rightarrow> rx \<Rightarrow> string \<Rightarrow> string \<Rightarrow> rmatch option" where
  "re_scan ic r l [] =
     (case rm ic r (l, [], []) of [] \<Rightarrow> None | st # _ \<Rightarrow> Some (mk_match l st))"
| "re_scan ic r l (c # s) =
     (case rm ic r (l, c # s, []) of
        [] \<Rightarrow> re_scan ic r (c # l) s
      | st # _ \<Rightarrow> Some (mk_match l st))"

definition re_search :: "bool \<Rightarrow> rx \<Rightarrow> string \<Rightarrow> rmatch option" where
  "re_search ic r s = re_scan ic r [] s"

text \<open>\<^verbatim>\<open>re.finditer\<close>: the matches from left to right, each search starting where the
  previous match ended.\<close>

function re_iter :: "bool \<Rightarrow> rx \<Rightarrow> string \<Rightarrow> string \<Rightarrow> rmatch list" where
  "re_iter ic r l s =
     (case rm ic r (l, s, []) of
        [] \<Rightarrow> (case s of [] \<Rightarrow> [] | c # s' \<Rightarrow> re_iter ic r (c # l) s')
      | (l', s', cs) # _ \<Rightarrow>
          mk_match l (l', s', cs) #
          (if length s' < length s then re_iter ic r l' s'
           else (case s of [] \<Rightarrow> [] | c # s'' \<Rightarrow> re_iter ic r (c # l) s'')))"
  by pat_completeness auto
termination
  by (relation "measure (\<lambda>(ic, r, l, s). length s)") auto

declare re_iter.simps [simp del]

definition re_finditer :: "bool \<Rightarrow> rx \<Rightarrow> string \<Rightarrow> rmatch list" where
  "re_finditer ic r s = re_iter ic r [] s"

section \<open>ESG URL patterns\<close>

text \<open>\<^verbatim>\<open>self.esg_url_patterns\<close> of \<^verbatim>\<open>ESGReportCrawler.__init__\<close>. Each pattern is made of
  letters, \<^verbatim>\<open>/\<close> and \<^verbatim>\<open>-\<close> only, so as a regular expression it is the literal.\<close>

definition esg_url_patterns :: "string list" where
  "esg_url_patterns =
     [''/sustainability'', ''/esg'', ''/csr'', ''/corporate-responsibility'',
      ''/environmental'', ''/social-responsibility'', ''/governance'',
      ''/annual-report'', ''/impact-report'', ''/investor-relations'',
      ''/responsibility'', ''/climate'', ''/carbon'']"

definition filter_esg_links :: "string list \<Rightarrow> string list" where
  "filter_esg_links links =
     filter (\<lambda>link. list_ex (\<lambda>pattern. re_search False (Lit pattern) (py_lower link) \<noteq> None)
                             esg_url_patterns) links"

text \<open>The list local to \<^verbatim>\<open>_detect_esg_url_patterns\<close>.\<close>

definition esg_patterns :: "string list" where
  "esg_patterns =
     [''/sustainability'', ''/esg'', ''/csr'', ''/corporate-responsibility'',
      ''/environmental'', ''/social-responsibility'', ''/governance'',
      ''/annual-report'', ''/impact-report'', ''/climate'', ''/carbon'']"

definition detect_esg_url_patterns :: "string \<Rightarrow> string list" where
  "detect_esg_url_patterns base_url =
     filter (\<lambda>pattern. contains pattern (py_lower base_url)) esg_patterns"

section \<open>URL parsing (\<^verbatim>\<open>urllib.parse\<close>)\<close>

text \<open>
  \<^verbatim>\<open>urlsplit\<close>, \<^verbatim>\<open>urlparse\<close> and \<^verbatim>\<open>urlunparse\<close> of the Python standard library
  (CPython 3.11.10), as the crawler calls them (\<^verbatim>\<open>str\<close> arguments, default scheme
  empty, fragments allowed). \<^verbatim>\<open>urlsplit\<close> raises \<^verbatim>\<open>ValueError\<close> when the network
  location has one square bracket without the other. It also validates the host that
  stands between two brackets (\<^verbatim>\<open>_check_bracketed_host\<close>), which is not modelled: every
  statement below about a URL that is accepted is about a URL without square brackets.
  On code points below 256 \<^verbatim>\<open>_checknetloc\<close> never raises.
\<close>

datatype py_error = ValueError string | KeyError string

text \<open>\<^verbatim>\<open>str(e)\<close>: a \<^verbatim>\<open>KeyError\<close> prints the \<^verbatim>\<open>repr\<close> of its key.\<close>

fun str_of_error :: "py_error \<Rightarrow> string" where
  "str_of_error (ValueError m) = m"
| "str_of_error (KeyError k) = [CHR 0x27] @ k @ [CHR 0x27]"

record parse_result =
  scheme :: string
  netloc :: string
  path :: string
  params :: string
  query :: string
  fragment :: string

definition scheme_char :: "char \<Rightarrow> bool" where
  "scheme_char c = (let n = (of_char c :: nat) in
     (65 \<le> n \<and> n \<le> 90) \<or> (97 \<le> n \<and> n \<le> 122) \<or> (48 \<le> n \<and> n \<le> 57) \<or>
     c = CHR ''+'' \<or> c = CHR ''-'' \<or> c = CHR ''.'')"

definition ascii_alpha :: "char \<Rightarrow> bool" where
  "ascii_alpha c = (let n = (of_char c :: nat) in
     (65 \<le> n \<and> n \<le> 90) \<or> (97 \<le> n \<and> n \<le> 122))"

text \<open>The leading C0 control characters and spaces are stripped, then every tab,
  carriage return and line feed is removed.\<close>

definition url_clean :: "string \<Rightarrow> string" where
  "url_clean url =
     filter (\<lambda>c. c \<noteq> CHR 0x09 \<and> c \<noteq> CHR 0x0A \<and> c \<noteq> CHR 0x0D)
            (dropWhile (\<lambda>c. (of_char c :: nat) \<le> 32) url)"

text \<open>The scheme: the text before the first colon, when it is not empty, starts with an
  ASCII letter and holds scheme characters only.\<close>

definition split_scheme :: "string \<Rightarrow> string \<times> string" where
  "split_scheme url =
     (let pre = takeWhile (\<lambda>c. c \<noteq> CHR '':'') url in
      if length pre < length url \<and> pre \<noteq> [] \<and> ascii_alpha (hd pre) \<and> list_all scheme_char pre
      then (py_lower pre, drop (Suc (length pre)) url)
      else ([], url))"

definition netloc_delim :: "char \<Rightarrow> bool" where
  "netloc_delim c = (c = CHR ''/'' \<or> c = CHR ''?'' \<or> c = CHR ''#'')"

definition urlsplit :: "string \<Rightarrow> py_error + parse_result" where
  "urlsplit url0 =
     (let (sch, url1) = split_scheme (url_clean url0);
          (nl, url2) = (if take 2 url1 = ''//''
                        then (takeWhile (\<lambda>c. \<not> netloc_delim c) (drop 2 url1),
                              dropWhile (\<lambda>c. \<not> netloc_delim c) (drop 2 url1))
                        else ([], url1))
      in if (CHR ''['' \<in> set nl \<and> CHR '']'' \<notin> set nl) \<or> (CHR '']'' \<in> set nl \<and> CHR ''['' \<notin> set nl)
         then Inl (ValueError ''Invalid IPv6 URL'')
         else
           (let url3 = takeWhile (\<lambda>c. c \<noteq> CHR ''#'') url2;
                frag = drop (Suc (length url3)) url2;
                url4 = takeWhile (\<lambda>c. c \<noteq> CHR ''?'') url3;
                qry = drop (Suc (length url4)) url3
            in Inr \<lparr>scheme = sch, netloc = nl, path = url4, params = [],
                     query = qry, fragment = frag\<rparr>))"

definition uses_params :: "string list" where
  "uses_params = [[], ''ftp'', ''hdl'', ''prospero'', ''http'', ''imap'', ''https'',
     ''shttp'', ''rtsp'', ''rtsps'', ''rtspu'', ''sip'', ''sips'', ''mms'', ''sftp'', ''tel'']"

definition uses_netloc :: "string list" where
  "uses_netloc = [[], ''ftp'', ''http'', ''gopher'', ''nntp'', ''telnet'', ''imap'',
     ''wais'', ''file'', ''mms'', ''https'', ''shttp'', ''snews'', ''prospero'', ''rtsp'',
     ''rtsps'', ''rtspu'', ''rsync'', ''svn'', ''svn+ssh'', ''sftp'', ''nfs'', ''git'', ''git+ssh'',
     ''ws'', ''wss'']"

text \<open>\<^verbatim>\<open>_splitparams\<close>: the parameters start at the first semicolon of the last path
  segment.\<close>

definition last_segment :: "string \<Rightarrow> string" where
  "last_segment url = rev (takeWhile (\<lambda>c. c \<noteq> CHR ''/'') (rev url))"

definition splitparams :: "string \<Rightarrow> string \<times> string" where
  "splitparams url =
     (let seg = (if CHR ''/'' \<in> set url then last_segment url else url);
          base = take (length url - length seg) url;
          keep = takeWhile (\<lambda>c. c \<noteq> CHR '';'') seg
      in if CHR '';'' \<in> set seg
         then (base @ keep, drop (Suc (length keep)) seg)
         else (url, []))"

definition urlparse :: "string \<Rightarrow> py_error + parse_result" where
  "urlparse url =
     (case urlsplit url of
        Inl e \<Rightarrow> Inl e
      | Inr r \<Rightarrow>
          if scheme r \<in> set uses_params \<and> CHR '';'' \<in> set (path r)
          then (let (p, ps) = splitparams (path r) in Inr (r\<lparr>path := p, params := ps\<rparr>))
          else Inr r)"

definition urlunsplit :: "string \<Rightarrow> string \<Rightarrow> string \<Rightarrow> string \<Rightarrow> string \<Rightarrow> string" where
  "urlunsplit sch nl url qry frag =
     (let url1 = (if nl \<noteq> [] \<or> (sch \<noteq> [] \<and> sch \<in> set uses_netloc) \<or> take 2 url = ''//''
                  then ''//'' @ nl @ (if url \<noteq> [] \<and> take 1 url \<noteq> ''/'' then ''/'' @ url else url)
                  else url);
          url2 = (if sch \<noteq> [] then sch @ '':'' @ url1 else url1);
          url3 = (if qry \<noteq> [] then url2 @ ''?'' @ qry else url2)
      in if frag \<noteq> [] then url3 @ ''#'' @ frag else url3)"

definition urlunparse :: "parse_result \<Rightarrow> string" where
  "urlunparse r =
     urlunsplit (scheme r) (netloc r)
       (if params r \<noteq> [] then path r @ '';'' @ params r else path r)
       (query r) (fragment r)"

section \<open>The URL normalizer\<close>

definition rstrip_slash :: "string \<Rightarrow> string" where
  "rstrip_slash p = rev (dropWhile (\<lambda>c. c = CHR ''/'') (rev p))"

definition normalize_url :: "string \<Rightarrow> py_error + string" where
  "normalize_url url0 =
     (let url = (if \<not> (startswith url0 ''http://'' \<or> startswith url0 ''https://'')
                 then ''https://'' @ url0 else url0)
      in case urlparse url of
           Inl e \<Rightarrow> Inl e
         | Inr parsed \<Rightarrow>
             Inr (urlunparse
               \<lparr>scheme = scheme parsed,
                netloc = py_lower (netloc parsed),
                path = (if rstrip_slash (path parsed) = [] then ''/''
                        else rstrip_slash (path parsed)),
                params = params parsed,
                query = query parsed,
                fragment = []\<rparr>))"

section \<open>Parsed pages\<close>

text \<open>
  The HTML parser (BeautifulSoup) is outside the crawler. A parsed page is what the
  crawler reads from it: \<^verbatim>\<open>get_text()\<close> of the document and, in document order, every
  element with its name, its class list, its other attributes and its own
  \<^verbatim>\<open>get_text()\<close>. \<^verbatim>\<open>BeautifulSoup("", 'html.parser')\<close> is the page without text and
  without elements.
\<close>

record tag =
  t_name :: string
  t_class :: "string list"
  t_attrs :: "(string \<times> string) list"
  t_text :: string

record soup =
  s_text :: string
  s_tags :: "tag list"

definition empty_soup :: soup where
  "empty_soup = \<lparr>s_text = [], s_tags = []\<rparr>"

definition attr :: "tag \<Rightarrow> string \<Rightarrow> string option" where
  "attr t k = map_of (t_attrs t) k"

text \<open>\<^verbatim>\<open>soup.find_all('a', href=True)\<close>\<close>

definition anchors :: "soup \<Rightarrow> tag list" where
  "anchors sp = filter (\<lambda>t. t_name t = ''a'' \<and> attr t ''href'' \<noteq> None) (s_tags sp)"

definition href_of :: "tag \<Rightarrow> string" where
  "href_of t = (case attr t ''href'' of None \<Rightarrow> [] | Some h \<Rightarrow> h)"

fun join_with :: "string \<Rightarrow> string list \<Rightarrow> string" where
  "join_with sep [] = []"
| "join_with sep [x] = x"
| "join_with sep (x # xs) = x @ sep @ join_with sep xs"

text \<open>A compiled pattern given as \<^verbatim>\<open>class_\<close> is searched in each class of the element
  and then in the classes joined by a space.\<close>

definition class_matches :: "rx \<Rightarrow> tag \<Rightarrow> bool" where
  "class_matches r t =
     (list_ex (\<lambda>c. re_search True r c \<noteq> None) (t_class t) \<or>
      re_search True r (join_with '' '' (t_class t)) \<noteq> None)"

text \<open>\<^verbatim>\<open>soup.find_all(['nav', 'ul', 'div'], class_=re.compile(r'nav|menu', re.I))\<close>\<close>

definition nav_elements :: "soup \<Rightarrow> tag list" where
  "nav_elements sp =
     filter (\<lambda>t. t_name t \<in> set [''nav'', ''ul'', ''div''] \<and>
                 class_matches (Alt (Lit ''nav'') (Lit ''menu'')) t) (s_tags sp)"

text \<open>\<^verbatim>\<open>soup.find('title')\<close>\<close>

definition find_title :: "soup \<Rightarrow> tag option" where
  "find_title sp = find (\<lambda>t. t_name t = ''title'') (s_tags sp)"

section \<open>The link extractor\<close>

definition is_same_domain :: "string \<Rightarrow> string \<Rightarrow> bool" where
  "is_same_domain link base_url =
     (case urlparse link of
        Inl e \<Rightarrow> False
      | Inr l \<Rightarrow>
          (case urlparse base_url of
             Inl e \<Rightarrow> False
           | Inr b \<Rightarrow> py_lower (netloc l) = py_lower (netloc b)))"

definition skipped_href :: "string \<Rightarrow> bool" where
  "skipped_href href =
     (href = [] \<or> startswith href ''#'' \<or> startswith href ''javascript:'' \<or>
      startswith href ''mailto:'' \<or> startswith href ''tel:'')"

definition is_http :: "string \<Rightarrow> bool" where
  "is_http u = (startswith u ''http://'' \<or> startswith u ''https://'')"

text \<open>\<^verbatim>\<open>urljoin\<close> of the standard library is a parameter: it returns the joined URL or
  raises.\<close>

fun collect_links ::
  "(string \<Rightarrow> string \<Rightarrow> py_error + string) \<Rightarrow> string \<Rightarrow> tag list \<Rightarrow> py_error + string list"
where
  "collect_links urljoin base_url [] = Inr []"
| "collect_links urljoin base_url (link_tag # rest) =
     (let href = py_strip (href_of link_tag) in
      if skipped_href href then collect_links urljoin base_url rest
      else
        (case urljoin base_url href of
           Inl e \<Rightarrow> Inl e
         | Inr absolute_url \<Rightarrow>
             (case collect_links urljoin base_url rest of
                Inl e \<Rightarrow> Inl e
              | Inr links \<Rightarrow>
                  if is_http absolute_url \<and> is_same_domain absolute_url base_url
                  then Inr (absolute_url # links)
                  else Inr links)))"

text \<open>\<^verbatim>\<open>list(set(links))\<close>: the order of the result is not fixed by Python; the model
  keeps one of the possible orders.\<close>

definition extract_links ::
  "(string \<Rightarrow> string \<Rightarrow> py_error + string) \<Rightarrow> soup \<Rightarrow> string \<Rightarrow> py_error + string list"
where
  "extract_links urljoin sp base_url =
     (case collect_links urljoin base_url (anchors sp) of
        Inl e \<Rightarrow> Inl e
      | Inr links \<Rightarrow> Inr (remdups links))"

section \<open>Evidence\<close>

text \<open>The evidence dictionaries of the four strategies as one record; a key that a
  strategy does not write is \<open>None\<close>. The wall-clock fields
  (\<^verbatim>\<open>detection_timestamp\<close>, \<^verbatim>\<open>collection_timestamp\<close>, \<^verbatim>\<open>response_time\<close>,
  \<^verbatim>\<open>config_timestamp\<close>) are left out.\<close>

datatype kw_found = Kw string | KwImpact string string

datatype snippet =
    KeywordSnippet string string int
  | ImpactSnippet string string string int
  | QuantSnippet string string string

record nav_match =
  nm_keyword :: string
  nm_nav_text :: string
  nm_element_type :: string
  nm_element_class :: "string list"
  nm_confidence :: "rat option"

record title_match =
  tm_keyword :: string
  tm_full_title :: string
  tm_confidence :: "rat option"

record content_quality =
  high_impact_keywords :: nat
  medium_impact_keywords :: nat
  low_impact_keywords :: nat
  content_quality_score :: rat
  navigation_score :: rat
  title_score :: rat

record doc_info =
  d_url :: string
  d_link_text :: string
  d_type :: string
  is_sustainability_related :: bool

record document_summary =
  total_pdfs :: nat
  total_office_docs :: nat
  sustainability_related_docs :: nat
  sustainability_ratio :: rat

record doc_discovery =
  pdf_documents :: "doc_info list"
  doc_documents :: "doc_info list"
  total_documents_found :: nat
  sustainability_documents :: "doc_info list"
  document_analysis_summary :: document_summary

record quant_patterns =
  percentages_found :: "string list"
  targets_found :: "string list"
  metrics_found :: "string list"
  years_found :: "string list"
  numerical_goals :: "string list"

record sentiment =
  s_neg :: rat
  s_neu :: rat
  s_pos :: rat
  s_compound :: rat

record sentiment_block =
  overall_sentiment :: sentiment
  esg_specific_sentiment :: rat
  positive_indicators :: rat
  negative_indicators :: rat
  neutral_indicators :: rat

record entity =
  e_type :: string
  e_value :: string
  e_context :: string
  e_position :: "nat \<times> nat"

record semantic =
  concept_similarities :: "(string \<times> rat) list"
  dominant_concept :: "string option"
  overall_esg_alignment :: rat

record summary =
  sm_summary :: string
  key_points :: "string list"
  sentence_count :: nat

record topic =
  tp_topic :: string
  keyword_matches :: nat
  relevance_score :: rat

record credibility =
  category_scores :: "(string \<times> rat) list"
  overall_credibility :: rat
  has_verification :: bool
  has_specific_metrics :: bool

record nlp_results =
  sentiment_analysis :: sentiment_block
  named_entities :: "entity list"
  semantic_similarity :: semantic
  content_summary :: summary
  esg_topics_identified :: "topic list"
  commitment_strength :: rat
  forward_looking_statements :: "string list"
  credibility_indicators :: credibility

text \<open>\<^verbatim>\<open>nlp_analysis\<close> is \<open>Some None\<close> when the key holds the empty dictionary.\<close>

record evidence =
  keywords_found :: "kw_found list"
  navigation_matches :: "nav_match list"
  title_matches :: "title_match list"
  url_patterns_found :: "string list"
  content_snippets :: "snippet list"
  detection_method :: string
  sustainability_score :: "rat option"
  confidence_level :: "rat option"
  content_quality_analysis :: "content_quality option"
  quantitative_data_found :: "bool option"
  targets_or_goals_found :: "bool option"
  document_discovery :: "doc_discovery option"
  quantitative_patterns :: "quant_patterns option"
  nlp_analysis :: "nlp_results option option"

text \<open>\<^verbatim>\<open>round(x, ndigits)\<close> on an exact value: to the nearest multiple of
  \<open>10 ^ -ndigits\<close>, a tie to the even one.\<close>

definition py_round :: "rat \<Rightarrow> nat \<Rightarrow> rat" where
  "py_round x nd =
     (let y = x * 10 ^ nd; f = \<lfloor>y\<rfloor>; d = y - of_int f
      in of_int (if d < 1 / 2 then f else if 1 / 2 < d then f + 1
                 else if even f then f else f + 1) / 10 ^ nd)"

section \<open>Strategy v1: keywords\<close>

definition esg_keywords :: "string list" where
  "esg_keywords =
     [''sustainability report'', ''esg report'', ''csr report'', ''environmental report'',
      ''social responsibility report'', ''annual sustainability'', ''impact report'',
      ''corporate responsibility report'', ''governance report'', ''climate report'',
      ''carbon report'', ''environmental social governance'']"

definition esg_nav_keywords :: "string list" where
  "esg_nav_keywords =
     [''sustainability'', ''esg'', ''csr'', ''responsibility'', ''environmental'', ''governance'']"

definition title_keywords :: "string list" where
  "title_keywords = [''sustainability'', ''esg'', ''csr'', ''responsibility'']"

text \<open>The snippet of at most 50 characters on each side of the first occurrence, and
  the position of that occurrence.\<close>

definition snippet_at :: "string \<Rightarrow> string \<Rightarrow> string \<times> int" where
  "snippet_at page_text keyword =
     (let start_idx = py_find page_text keyword;
          snippet_start = max 0 (start_idx - 50);
          snippet_end = min (int (length page_text)) (start_idx + int (length keyword) + 50)
      in (py_strip (slice page_text snippet_start snippet_end), start_idx))"

definition nav_matches_of :: "rat option \<Rightarrow> soup \<Rightarrow> nav_match list" where
  "nav_matches_of conf sp =
     concat (map (\<lambda>nav.
        let nav_text = py_lower (t_text nav) in
        map (\<lambda>keyword.
               \<lparr>nm_keyword = keyword, nm_nav_text = take 200 (py_strip nav_text),
                nm_element_type = t_name nav, nm_element_class = t_class nav,
                nm_confidence = conf\<rparr>)
            (filter (\<lambda>keyword. contains keyword nav_text) esg_nav_keywords))
       (nav_elements sp))"

definition title_matches_of :: "rat option \<Rightarrow> soup \<Rightarrow> title_match list" where
  "title_matches_of conf sp =
     (case find_title sp of
        None \<Rightarrow> []
      | Some title \<Rightarrow>
          (let title_text = py_lower (t_text title) in
           map (\<lambda>keyword.
                  \<lparr>tm_keyword = keyword, tm_full_title = py_strip (t_text title),
                   tm_confidence = conf\<rparr>)
               (filter (\<lambda>keyword. contains keyword title_text) title_keywords)))"

definition detect_esg_content_v1 :: "soup \<Rightarrow> bool \<times> evidence" where
  "detect_esg_content_v1 sp =
     (let page_text = py_lower (s_text sp);
          found = filter (\<lambda>keyword. contains keyword page_text) esg_keywords;
          navs = nav_matches_of None sp;
          titles = title_matches_of None sp;
          has_esg = (found \<noteq> [] \<or> navs \<noteq> [] \<or> titles \<noteq> [])
      in (has_esg,
          \<lparr>keywords_found = map Kw found,
           navigation_matches = navs,
           title_matches = titles,
           url_patterns_found = [],
           content_snippets =
             map (\<lambda>keyword. case snippet_at page_text keyword of
                               (snip, pos) \<Rightarrow> KeywordSnippet keyword snip pos) found,
           detection_method = ''basic_keyword_matching'',
           sustainability_score = None,
           confidence_level = None,
           content_quality_analysis = None,
           quantitative_data_found = None,
           targets_or_goals_found = None,
           document_discovery = None,
           quantitative_patterns = None,
           nlp_analysis = None\<rparr>))"

section \<open>Strategy v2: weighted scoring\<close>

definition high_impact :: "string list" where
  "high_impact =
     [''sustainability report'', ''carbon footprint'', ''net zero'',
      ''science-based targets'', ''ESG strategy'', ''climate action'']"

definition medium_impact :: "string list" where
  "medium_impact =
     [''green initiatives'', ''renewable energy'', ''energy efficiency'',
      ''waste reduction'', ''circular economy'']"

definition low_impact :: "string list" where
  "low_impact = [''eco-friendly'', ''sustainable practices'', ''environmental awareness'']"

text \<open>\<^verbatim>\<open>\d+%|\d+\s*(tons?|tonnes?|MW|GW|kWh|CO2|carbon)\<close>\<close>

definition quantitative_rx :: rx where
  "quantitative_rx =
     Alt (Seq (plus Dig) (Lit ''%''))
         (Seq (plus Dig) (Seq (Star Spc)
            (Grp 1 (Alt (Seq (Lit ''ton'') (opt (Lit ''s'')))
                   (Alt (Seq (Lit ''tonne'') (opt (Lit ''s'')))
                        (alts [''MW'', ''GW'', ''kWh'', ''CO2'', ''carbon'']))))))"

text \<open>\<^verbatim>\<open>by\s+20\d{2}|target|goal|commitment\<close>\<close>

definition targets_rx :: rx where
  "targets_rx =
     Alt (Seq (Lit ''by'') (Seq (plus Spc) (Seq (Lit ''20'') (times 2 Dig))))
         (alts [''target'', ''goal'', ''commitment''])"

text \<open>The scores are sums of steps of 0.1 and 0.2 per match; in exact arithmetic the
  sum of \<open>n\<close> steps is \<open>n\<close> times the step.\<close>

definition detect_esg_content_v2 :: "soup \<Rightarrow> bool \<times> evidence" where
  "detect_esg_content_v2 sp =
     (let page_text = py_lower (s_text sp);
          high = filter (\<lambda>keyword. contains keyword page_text) high_impact;
          medium = filter (\<lambda>keyword. contains keyword page_text) medium_impact;
          low = filter (\<lambda>keyword. contains keyword page_text) low_impact;
          high_impact_matches = length high;
          medium_impact_matches = length medium;
          low_impact_matches = length low;
          keywords = map (\<lambda>k. KwImpact k ''high'') high @ map (\<lambda>k. KwImpact k ''medium'') medium
                     @ map (\<lambda>k. KwImpact k ''low'') low;
          score0 = min (4 / 10) (of_nat high_impact_matches * (1 / 10))
                 + min (3 / 10) (of_nat medium_impact_matches * (5 / 100))
                 + min (1 / 10) (of_nat low_impact_matches * (2 / 100));
          quantitative_pattern = re_search False quantitative_rx page_text;
          score1 = (if quantitative_pattern \<noteq> None then score0 + 15 / 100 else score0);
          targets_pattern = re_search False targets_rx page_text;
          content_quality_score = (if targets_pattern \<noteq> None then score1 + 5 / 100 else score1);
          navs = nav_matches_of (Some (8 / 10)) sp;
          nav_score = of_nat (length navs) * (1 / 10);
          titles = title_matches_of (Some (9 / 10)) sp;
          title_score = of_nat (length titles) * (2 / 10);
          overall_score = min 10 (content_quality_score * 6 + nav_score * 2 + title_score * 2);
          data_points = length keywords + length navs + length titles;
          confidence = min 1 (3 / 10 + of_nat data_points * (1 / 10));
          has_esg = (2 \<le> overall_score \<or> 6 / 10 \<le> confidence)
      in (has_esg,
          \<lparr>keywords_found = keywords,
           navigation_matches = navs,
           title_matches = titles,
           url_patterns_found = [],
           content_snippets =
             map (\<lambda>keyword. case snippet_at page_text keyword of
                               (snip, pos) \<Rightarrow> ImpactSnippet keyword snip ''high'' pos) high
             @ (case quantitative_pattern of
                  None \<Rightarrow> []
                | Some m \<Rightarrow>
                    [QuantSnippet ''quantitative_data'' (m_text m)
                       (slice page_text (max 0 (int (m_start m) - 30)) (int (m_end m) + 30))]),
           detection_method = ''enhanced_scoring_algorithm'',
           sustainability_score = Some (py_round overall_score 2),
           confidence_level = Some (py_round confidence 3),
           content_quality_analysis =
             Some \<lparr>high_impact_keywords = high_impact_matches,
                   medium_impact_keywords = medium_impact_matches,
                   low_impact_keywords = low_impact_matches,
                   content_quality_score = py_round content_quality_score 3,
                   navigation_score = py_round nav_score 3,
                   title_score = py_round title_score 3\<rparr>,
           quantitative_data_found = Some (quantitative_pattern \<noteq> None),
           targets_or_goals_found = Some (targets_pattern \<noteq> None),
           document_discovery = None,
           quantitative_patterns = None,
           nlp_analysis = None\<rparr>))"

section \<open>Strategy v3: documents and quantitative patterns\<close>

definition pdf_extensions :: "string list" where
  "pdf_extensions = [''.pdf'']"

definition doc_extensions :: "string list" where
  "doc_extensions = [''.doc'', ''.docx'', ''.xls'', ''.xlsx'', ''.ppt'', ''.pptx'']"

definition sustainability_doc_keywords :: "string list" where
  "sustainability_doc_keywords =
     [''sustainability'', ''esg'', ''csr'', ''responsibility'', ''environmental'',
      ''carbon'', ''climate'', ''green'', ''renewable'', ''annual report'',
      ''impact report'', ''governance'', ''ethics'', ''compliance'']"

definition classify_link :: "tag \<Rightarrow> doc_info option" where
  "classify_link link =
     (let href = py_lower (href_of link);
          link_text = py_lower (py_strip (t_text link));
          related = list_ex (\<lambda>keyword. contains keyword href \<or> contains keyword link_text)
                            sustainability_doc_keywords
      in if list_ex (\<lambda>ext. contains ext href) pdf_extensions
         then Some \<lparr>d_url = href, d_link_text = link_text, d_type = ''pdf'',
                    is_sustainability_related = related\<rparr>
         else if list_ex (\<lambda>ext. contains ext href) doc_extensions
         then Some \<lparr>d_url = href, d_link_text = link_text, d_type = ''office_document'',
                    is_sustainability_related = related\<rparr>
         else None)"

definition discover_documents :: "soup \<Rightarrow> doc_discovery" where
  "discover_documents sp =
     (let docs = List.map_filter classify_link (anchors sp);
          pdfs = filter (\<lambda>d. d_type d = ''pdf'') docs;
          offices = filter (\<lambda>d. d_type d = ''office_document'') docs;
          sust = filter is_sustainability_related docs;
          total = length pdfs + length offices
      in \<lparr>pdf_documents = pdfs,
          doc_documents = offices,
          total_documents_found = total,
          sustainability_documents = sust,
          document_analysis_summary =
            \<lparr>total_pdfs = length pdfs,
             total_office_docs = length offices,
             sustainability_related_docs = length sust,
             sustainability_ratio = of_nat (length sust) / of_nat (max total 1)\<rparr>\<rparr>)"

text \<open>\<^verbatim>\<open>\d+(?:\.\d+)?\<close>\<close>

definition number_rx :: rx where
  "number_rx = Seq (plus Dig) (opt (Seq (Lit ''.'') (plus Dig)))"

definition tons_rx :: rx where
  "tons_rx = Seq (Lit ''ton'') (opt (Lit ''s''))"

text \<open>\<^verbatim>\<open>(\d+(?:\.\d+)?)\s*%\<close>\<close>

definition percentage_pattern :: rx where
  "percentage_pattern = Seq (Grp 1 number_rx) (Seq (Star Spc) (Lit ''%''))"

text \<open>\<^verbatim>\<open>(?:target|goal|aim|reduce|increase|achieve)\s+(?:by\s+)?(\d{4}|\d+(?:\.\d+)?%|\d+(?:\.\d+)?\s*(?:million|billion|thousand|tons?|kg|mt))\<close>\<close>

definition target_pattern :: rx where
  "target_pattern =
     Seq (alts [''target'', ''goal'', ''aim'', ''reduce'', ''increase'', ''achieve''])
    (Seq (plus Spc)
    (Seq (opt (Seq (Lit ''by'') (plus Spc)))
         (Grp 1 (Alt (times 4 Dig)
                (Alt (Seq number_rx (Lit ''%''))
                     (Seq number_rx (Seq (Star Spc)
                        (Alt (alts [''million'', ''billion'', ''thousand''])
                        (Alt tons_rx (alts [''kg'', ''mt''])))))))))) "

text \<open>\<^verbatim>\<open>(\d+(?:,\d{3})*(?:\.\d+)?)\s*(tons?|kg|mt|kwh|mwh|gwh|co2|carbon|emissions|energy|water|waste)\<close>\<close>

definition metric_pattern :: rx where
  "metric_pattern =
     Seq (Grp 1 (Seq (plus Dig)
                (Seq (Star (Seq (Lit '','') (times 3 Dig)))
                     (opt (Seq (Lit ''.'') (plus Dig))))))
    (Seq (Star Spc)
         (Grp 2 (Alt tons_rx
                    (alts [''kg'', ''mt'', ''kwh'', ''mwh'', ''gwh'', ''co2'', ''carbon'',
                           ''emissions'', ''energy'', ''water'', ''waste'']))))"

text \<open>\<^verbatim>\<open>\b(20\d{2})\b\<close>\<close>

definition year_pattern :: rx where
  "year_pattern = Seq WB (Seq (Grp 1 (Seq (Lit ''20'') (times 2 Dig))) WB)"

text \<open>\<^verbatim>\<open>(?:net.zero|carbon.neutral|zero.emissions|100%\s*renewable)\<close>\<close>

definition numerical_goal_pattern :: rx where
  "numerical_goal_pattern =
     Alt (Seq (Lit ''net'') (Seq Dot (Lit ''zero'')))
    (Alt (Seq (Lit ''carbon'') (Seq Dot (Lit ''neutral'')))
    (Alt (Seq (Lit ''zero'') (Seq Dot (Lit ''emissions'')))
         (Seq (Lit ''100%'') (Seq (Star Spc) (Lit ''renewable'')))))"

text \<open>\<^verbatim>\<open>int(year)\<close> on a string of ASCII digits.\<close>

definition int_of_digits :: "string \<Rightarrow> int" where
  "int_of_digits s = foldl (\<lambda>a c. 10 * a + (int (of_char c) - 48)) 0 s"

definition extract_quantitative_data :: "soup \<Rightarrow> quant_patterns" where
  "extract_quantitative_data sp =
     (let page_text = s_text sp;
          percentages = map (\<lambda>m. grp m 1) (re_finditer True percentage_pattern page_text);
          targets = map (\<lambda>m. grp m 1) (re_finditer True target_pattern page_text);
          metrics = map (\<lambda>m. (grp m 1, grp m 2)) (re_finditer True metric_pattern page_text);
          years = map (\<lambda>m. grp m 1) (re_finditer False year_pattern page_text);
          relevant_years =
            filter (\<lambda>year. 2020 \<le> int_of_digits year \<and> int_of_digits year \<le> 2050) years;
          goals = map m_text (re_finditer True numerical_goal_pattern page_text)
      in \<lparr>percentages_found = map (\<lambda>percentage. percentage @ ''%'') percentages,
          targets_found = targets,
          metrics_found = map (\<lambda>(value, unit). value @ '' '' @ unit) metrics,
          years_found = remdups relevant_years,
          numerical_goals = remdups goals\<rparr>)"

definition get_or :: "'a \<Rightarrow> 'a option \<Rightarrow> 'a" where
  "get_or d v = (case v of None \<Rightarrow> d | Some x \<Rightarrow> x)"

definition detect_esg_content_v3 :: "soup \<Rightarrow> bool \<times> evidence" where
  "detect_esg_content_v3 sp =
     (let (has_esg_v2, evidence_v2) = detect_esg_content_v2 sp;
          documents_found = discover_documents sp;
          quantitative_data = extract_quantitative_data sp;
          sustainability_score0 = get_or 0 (sustainability_score evidence_v2);
          doc_score0 = (if 0 < total_documents_found documents_found
                        then min (of_nat (total_documents_found documents_found) * (1 / 10)) (3 / 10)
                        else 0);
          doc_score = (if sustainability_documents documents_found \<noteq> []
                       then doc_score0
                            + of_nat (length (sustainability_documents documents_found)) * (15 / 100)
                       else doc_score0);
          quant_score0 = (if percentages_found quantitative_data \<noteq> []
                          then min (of_nat (length (percentages_found quantitative_data)) * (5 / 100))
                                   (2 / 10)
                          else 0);
          quant_score1 = (if targets_found quantitative_data \<noteq> []
                          then quant_score0
                               + min (of_nat (length (targets_found quantitative_data)) * (1 / 10))
                                     (3 / 10)
                          else quant_score0);
          quant_score = (if numerical_goals quantitative_data \<noteq> []
                         then quant_score1
                              + min (of_nat (length (numerical_goals quantitative_data)) * (8 / 100))
                                    (25 / 100)
                         else quant_score1);
          enhanced_score = sustainability_score0 + doc_score + quant_score;
          new_score = min enhanced_score 10;
          base_confidence = get_or 0 (confidence_level evidence_v2);
          doc_confidence =
            min (of_nat (length (sustainability_documents documents_found)) * (1 / 10)) (2 / 10);
          quant_confidence =
            min (of_nat (length (targets_found quantitative_data)) * (5 / 100)) (1 / 10);
          new_confidence = min (base_confidence + doc_confidence + quant_confidence) 1;
          has_esg = (25 / 10 \<le> new_score \<or> 7 / 10 \<le> new_confidence \<or> has_esg_v2)
      in (has_esg,
          evidence_v2
            \<lparr>detection_method := ''document_discovery_with_quantitative_analysis'',
             document_discovery := Some documents_found,
             quantitative_patterns := Some quantitative_data,
             sustainability_score := Some new_score,
             quantitative_data_found :=
               Some (percentages_found quantitative_data \<noteq> [] \<or>
                     metrics_found quantitative_data \<noteq> [] \<or>
                     numerical_goals quantitative_data \<noteq> []),
             targets_or_goals_found :=
               Some (targets_found quantitative_data \<noteq> [] \<or>
                     numerical_goals quantitative_data \<noteq> []),
             confidence_level := Some new_confidence\<rparr>))"

section \<open>Strategy v4: NLP analysis\<close>

text \<open>
  The NLP tools (NLTK's sentiment analyser, tokenizers, stop-word list and lemmatizer)
  are outside the crawler. Each is a parameter that returns a value or raises
  (\<open>None\<close>). The module flag \<^verbatim>\<open>NLP_AVAILABLE\<close> says whether they could be imported.
\<close>

record nlp_tools =
  polarity_scores :: "string \<Rightarrow> sentiment option"
  sent_tokenize :: "string \<Rightarrow> string list option"
  word_tokenize :: "string \<Rightarrow> string list option"
  stopwords_english :: "string list option"
  lemmatize :: "string \<Rightarrow> string option"

datatype nlp_capability = NLP_unavailable | NLP_available nlp_tools

definition any_in :: "string list \<Rightarrow> string \<Rightarrow> bool" where
  "any_in keywords text = list_ex (\<lambda>keyword. contains keyword text) keywords"

definition count_in :: "string list \<Rightarrow> string \<Rightarrow> nat" where
  "count_in keywords text = length (filter (\<lambda>keyword. contains keyword text) keywords)"

definition contains_esg_keywords :: "string \<Rightarrow> bool" where
  "contains_esg_keywords text =
     any_in [''sustainability'', ''environmental'', ''social'', ''governance'', ''esg'',
             ''carbon'', ''climate'', ''renewable'', ''green'', ''responsible'', ''ethical'']
            (py_lower text)"

text \<open>\<^verbatim>\<open>\b(\d+(?:\.\d+)?)\s*(?:tons?|tonnes?)\s*(?:of\s*)?(?:co2|carbon|emissions?)\b\<close>,
  \<^verbatim>\<open>\b(\d+(?:\.\d+)?)\s*(?:mwh|kwh|gwh)\b\<close> and
  \<^verbatim>\<open>\b(\d+(?:\.\d+)?)\s*(?:percent|%)\s*(?:reduction|renewable|clean)\b\<close>\<close>

definition env_patterns :: "rx list" where
  "env_patterns =
     [Seq WB (Seq (Grp 1 number_rx) (Seq (Star Spc)
        (Seq (Alt tons_rx (Seq (Lit ''tonne'') (opt (Lit ''s''))))
        (Seq (Star Spc)
        (Seq (opt (Seq (Lit ''of'') (Star Spc)))
        (Seq (Alt (Lit ''co2'') (Alt (Lit ''carbon'') (Seq (Lit ''emission'') (opt (Lit ''s'')))))
             WB)))))),
      Seq WB (Seq (Grp 1 number_rx) (Seq (Star Spc)
        (Seq (alts [''mwh'', ''kwh'', ''gwh'']) WB))),
      Seq WB (Seq (Grp 1 number_rx) (Seq (Star Spc)
        (Seq (alts [''percent'', ''%''])
        (Seq (Star Spc)
        (Seq (alts [''reduction'', ''renewable'', ''clean'']) WB)))))]"

definition social_keywords :: "string list" where
  "social_keywords =
     [''diversity'', ''inclusion'', ''safety'', ''community'', ''employee'', ''human rights'']"

definition extract_esg_entities :: "string \<Rightarrow> entity list" where
  "extract_esg_entities text =
     take 20
       (concat (map (\<lambda>pattern.
            map (\<lambda>m. \<lparr>e_type = ''environmental_metric'', e_value = grp m 1,
                       e_context = m_text m, e_position = (m_start m, m_end m)\<rparr>)
                (re_finditer True pattern text)) env_patterns)
        @ concat (map (\<lambda>keyword.
            map (\<lambda>m. \<lparr>e_type = ''social_topic'', e_value = keyword,
                       e_context = m_text m, e_position = (m_start m, m_end m)\<rparr>)
                (re_finditer True (Seq WB (Seq (Lit keyword) WB)) text)) social_keywords))"

definition esg_concept_words :: "(string \<times> string list) list" where
  "esg_concept_words =
     [(''environmental'', [''green'', ''clean'', ''renewable'', ''sustainable'', ''carbon'',
                          ''climate'', ''energy'']),
      (''social'', [''community'', ''diversity'', ''inclusion'', ''safety'', ''employee'',
                   ''stakeholder'']),
      (''governance'', [''ethics'', ''compliance'', ''transparency'', ''accountability'',
                       ''board'', ''audit''])]"

text \<open>\<^verbatim>\<open>max(d, key=d.get)\<close>: the first key with the largest value.\<close>

fun first_max :: "(string \<times> rat) list \<Rightarrow> string option" where
  "first_max [] = None"
| "first_max ((k, v) # rest) =
     (if list_all (\<lambda>(k', v'). v' \<le> v) rest then Some k else first_max rest)"

definition analyze_semantic_similarity :: "string list \<Rightarrow> semantic" where
  "analyze_semantic_similarity words =
     (let similarity_scores =
            map (\<lambda>(concept, concept_words).
                   (concept,
                    of_nat (sum_list (map (\<lambda>word. count_list words word) concept_words))
                    / of_nat (max (length concept_words) 1)))
                esg_concept_words
      in \<lparr>concept_similarities = similarity_scores,
          dominant_concept = first_max similarity_scores,
          overall_esg_alignment =
            (if similarity_scores \<noteq> []
             then sum_list (map snd similarity_scores) / of_nat (length similarity_scores)
             else 0)\<rparr>)"

definition summarize_esg_content :: "string list \<Rightarrow> summary" where
  "summarize_esg_content esg_sentences =
     (if esg_sentences = [] then \<lparr>sm_summary = [], key_points = [], sentence_count = 0\<rparr>
      else
        \<lparr>sm_summary = take 500 (join_with '' '' (take 3 esg_sentences)),
         key_points =
           take 5 (map py_strip
             (filter (\<lambda>sentence.
                        any_in [''target'', ''goal'', ''commit'', ''reduce'', ''increase'']
                               (py_lower sentence))
                     esg_sentences)),
         sentence_count = length esg_sentences\<rparr>)"

definition topics :: "(string \<times> string list) list" where
  "topics =
     [(''Climate Change'', [''climate'', ''global warming'', ''greenhouse gas'', ''carbon footprint'']),
      (''Renewable Energy'', [''renewable'', ''solar'', ''wind'', ''clean energy'', ''green energy'']),
      (''Waste Management'', [''waste'', ''recycling'', ''circular economy'', ''zero waste'']),
      (''Water Conservation'', [''water'', ''conservation'', ''sustainable water'']),
      (''Diversity & Inclusion'', [''diversity'', ''inclusion'', ''equal opportunity'',
                                   ''gender equality'']),
      (''Employee Safety'', [''safety'', ''workplace safety'', ''occupational health'']),
      (''Corporate Governance'', [''governance'', ''board'', ''ethics'', ''compliance'',
                                  ''transparency'']),
      (''Supply Chain'', [''supply chain'', ''supplier'', ''responsible sourcing''])]"

text \<open>\<^verbatim>\<open>sort(key=..., reverse=True)\<close> is stable: a topic goes behind every topic that
  is at least as relevant and came before it.\<close>

fun insert_topic :: "topic \<Rightarrow> topic list \<Rightarrow> topic list" where
  "insert_topic x [] = [x]"
| "insert_topic x (y # ys) =
     (if relevance_score y < relevance_score x then x # y # ys else y # insert_topic x ys)"

definition identify_esg_topics :: "string \<Rightarrow> topic list" where
  "identify_esg_topics text =
     (let text_lower = py_lower text;
          identified_topics =
            List.map_filter (\<lambda>(name, keywords).
               let matches = count_in keywords text_lower in
               if 0 < matches
               then Some \<lparr>tp_topic = name, keyword_matches = matches,
                          relevance_score = of_nat matches / of_nat (length keywords)\<rparr>
               else None) topics
      in take 10 (foldl (\<lambda>acc x. insert_topic x acc) [] identified_topics))"

definition analyze_commitment_strength :: "string \<Rightarrow> rat" where
  "analyze_commitment_strength text =
     (let text_lower = py_lower text;
          strong_count = count_in [''commit'', ''pledge'', ''promise'', ''guarantee'', ''ensure'',
                                   ''will achieve''] text_lower;
          moderate_count = count_in [''aim'', ''target'', ''goal'', ''strive'', ''work towards'',
                                     ''plan to''] text_lower;
          weak_count = count_in [''consider'', ''explore'', ''may'', ''might'', ''could'',
                                 ''potentially''] text_lower;
          total_commitments = strong_count + moderate_count + weak_count
      in if total_commitments = 0 then 0
         else min ((of_nat strong_count * 1 + of_nat moderate_count * (6 / 10)
                    + of_nat weak_count * (2 / 10)) / of_nat total_commitments) 1)"

definition extract_forward_looking_statements :: "string list \<Rightarrow> string list" where
  "extract_forward_looking_statements sentences =
     take 5 (map py_strip
       (filter (\<lambda>sentence.
                  any_in [''by 2030'', ''by 2050'', ''will'', ''plan to'', ''target'', ''goal'',
                          ''future'', ''next year''] (py_lower sentence)
                  \<and> contains_esg_keywords sentence)
               sentences))"

definition credibility_categories :: "(string \<times> string list) list" where
  "credibility_categories =
     [(''third_party_verification'', [''verified'', ''audited'', ''certified'', ''accredited'',
                                      ''validated'']),
      (''specific_metrics'', [''tons'', ''kwh'', ''percent'', ''%'', ''million'', ''billion'']),
      (''timeframes'', [''2030'', ''2050'', ''annual'', ''quarterly'', ''monthly'']),
      (''standards_frameworks'', [''gri'', ''sasb'', ''tcfd'', ''ungc'', ''iso 14001'',
                                  ''science based targets''])]"

definition analyze_credibility_indicators :: "string \<Rightarrow> credibility" where
  "analyze_credibility_indicators text =
     (let text_lower = py_lower text;
          credibility_scores =
            map (\<lambda>(category, indicators).
                   (category, of_nat (count_in indicators text_lower) / of_nat (length indicators)))
                credibility_categories
      in \<lparr>category_scores = credibility_scores,
          overall_credibility =
            sum_list (map snd credibility_scores) / of_nat (length credibility_scores),
          has_verification =
            (0 < get_or 0 (map_of credibility_scores ''third_party_verification'')),
          has_specific_metrics =
            (0 < get_or 0 (map_of credibility_scores ''specific_metrics''))\<rparr>)"

text \<open>\<^verbatim>\<open>word.isalpha()\<close>\<close>

definition isalpha :: "string \<Rightarrow> bool" where
  "isalpha word = (word \<noteq> [] \<and> list_all is_alpha word)"

text \<open>\<^verbatim>\<open>_perform_nlp_analysis\<close>: any exception of a tool is caught and the empty
  dictionary returned (\<open>None\<close>). The mean of the ESG sentences' compound scores is
  \<^verbatim>\<open>np.mean\<close>.\<close>

definition perform_nlp_analysis :: "nlp_tools \<Rightarrow> string \<Rightarrow> nlp_results option" where
  "perform_nlp_analysis tools text =
     (case polarity_scores tools text of
        None \<Rightarrow> None
      | Some sentiment_scores \<Rightarrow>
     (case sent_tokenize tools text of
        None \<Rightarrow> None
      | Some sentences \<Rightarrow>
     (case word_tokenize tools (py_lower text) of
        None \<Rightarrow> None
      | Some words \<Rightarrow>
     (case stopwords_english tools of
        None \<Rightarrow> None
      | Some stop_words \<Rightarrow>
     (case those (map (lemmatize tools)
                   (filter (\<lambda>word. isalpha word \<and> word \<notin> set stop_words) words)) of
        None \<Rightarrow> None
      | Some filtered_words \<Rightarrow>
     (let esg_sentences = filter contains_esg_keywords sentences in
      case those (map (polarity_scores tools) esg_sentences) of
        None \<Rightarrow> None
      | Some scores \<Rightarrow>
          (let esg_sentiment =
                 (if esg_sentences \<noteq> []
                  then sum_list (map s_compound scores) / of_nat (length scores) else 0)
           in Some
             \<lparr>sentiment_analysis =
                \<lparr>overall_sentiment = sentiment_scores,
                 esg_specific_sentiment = esg_sentiment,
                 positive_indicators = s_pos sentiment_scores,
                 negative_indicators = s_neg sentiment_scores,
                 neutral_indicators = s_neu sentiment_scores\<rparr>,
              named_entities = extract_esg_entities text,
              semantic_similarity = analyze_semantic_similarity filtered_words,
              content_summary = summarize_esg_content esg_sentences,
              esg_topics_identified = identify_esg_topics text,
              commitment_strength = analyze_commitment_strength text,
              forward_looking_statements = extract_forward_looking_statements sentences,
              credibility_indicators = analyze_credibility_indicators text\<rparr>)))))))"

definition calculate_nlp_score :: "nlp_results option \<Rightarrow> rat" where
  "calculate_nlp_score nlp =
     (case nlp of
        None \<Rightarrow> 0
      | Some r \<Rightarrow>
          (let esg_sentiment = esg_specific_sentiment (sentiment_analysis r);
               score0 = (if 1 / 10 < esg_sentiment then min (esg_sentiment * (5 / 10)) (5 / 10) else 0);
               score1 = score0 + min (of_nat (length (esg_topics_identified r)) * (1 / 10)) (8 / 10);
               score2 = score1 + commitment_strength r * (6 / 10);
               score3 = score2 + overall_credibility (credibility_indicators r) * (4 / 10)
           in min score3 2))"

definition calculate_nlp_confidence :: "nlp_results option \<Rightarrow> rat" where
  "calculate_nlp_confidence nlp =
     (case nlp of
        None \<Rightarrow> 0
      | Some r \<Rightarrow>
          (let confidence0 = min (of_nat (length (forward_looking_statements r)) * (5 / 100)) (15 / 100);
               confidence1 = confidence0 + min (of_nat (length (named_entities r)) * (1 / 100)) (1 / 10);
               confidence2 = (if has_verification (credibility_indicators r)
                              then confidence1 + 1 / 10 else confidence1);
               confidence3 = (if has_specific_metrics (credibility_indicators r)
                              then confidence2 + 5 / 100 else confidence2)
           in min confidence3 (3 / 10)))"

text \<open>
  \<^verbatim>\<open>_detect_esg_content_v4\<close>. The decision is a chain of \<^verbatim>\<open>or\<close>: its third operand,
  \<^verbatim>\<open>nlp_results["commitment_strength"] >= 0.7\<close>, is evaluated when the first two are
  false, and raises \<^verbatim>\<open>KeyError\<close> when the analysis returned the empty dictionary.
  \<^verbatim>\<open>_ensure_nltk_data\<close> only downloads data and swallows its own failures.
\<close>

definition detect_esg_content_v4 :: "nlp_capability \<Rightarrow> soup \<Rightarrow> py_error + bool \<times> evidence" where
  "detect_esg_content_v4 cap sp =
     (case cap of
        NLP_unavailable \<Rightarrow> Inr (detect_esg_content_v3 sp)
      | NLP_available tools \<Rightarrow>
          (let (has_esg_v3, evidence_v3) = detect_esg_content_v3 sp;
               nlp = perform_nlp_analysis tools (s_text sp);
               base_score = get_or 0 (sustainability_score evidence_v3);
               new_score = min (base_score + calculate_nlp_score nlp) 10;
               base_confidence = get_or 0 (confidence_level evidence_v3);
               new_confidence = min (base_confidence + calculate_nlp_confidence nlp) 1;
               ev = evidence_v3
                      \<lparr>detection_method := ''advanced_nlp_processing'',
                       nlp_analysis := Some nlp,
                       sustainability_score := Some new_score,
                       confidence_level := Some new_confidence\<rparr>
           in if 3 \<le> new_score \<or> 75 / 100 \<le> new_confidence then Inr (True, ev)
              else (case nlp of
                      None \<Rightarrow> Inl (KeyError ''commitment_strength'')
                    | Some r \<Rightarrow> Inr (7 / 10 \<le> commitment_strength r \<or> has_esg_v3, ev))))"

section \<open>The analysis of one website\<close>

record crawler =
  version :: string
  nlp :: nlp_capability
  max_depth :: nat

definition detect_esg_content :: "crawler \<Rightarrow> soup \<Rightarrow> py_error + bool \<times> evidence" where
  "detect_esg_content c sp =
     (if version c = ''4.0'' then detect_esg_content_v4 (nlp c) sp
      else if version c = ''3.0'' then Inr (detect_esg_content_v3 sp)
      else if version c = ''2.0'' then Inr (detect_esg_content_v2 sp)
      else Inr (detect_esg_content_v1 sp))"

text \<open>
  The network and the parsers are the environment: what \<^verbatim>\<open>session.get\<close> gives for a
  URL (an exception, a timeout, or a response with its status, its content-type header
  and its body, whose decoding may raise), what \<^verbatim>\<open>BeautifulSoup(content, 'html.parser')\<close>
  gives (a page or an exception), and \<^verbatim>\<open>urljoin\<close>. An exception is its message.
\<close>

datatype fetch_result =
    Fetch_raises string
  | Fetch_timeout
  | Fetch_response nat "string option" "string + string"

record environment =
  fetch :: "string \<Rightarrow> fetch_result"
  parse_html :: "string \<Rightarrow> string + soup"
  urljoin :: "string \<Rightarrow> string \<Rightarrow> py_error + string"

record website_analysis =
  base_url :: string
  is_accessible :: bool
  status_code :: "nat option"
  content_type :: "string option"
  page_size :: "nat option"
  has_navigation :: bool
  language :: string
  sustainability_section_found :: bool
  sustainability_links_found :: nat
  total_links_found :: nat
  error_message :: "string option"

text \<open>\<^verbatim>\<open>WebsiteAnalysis(base_url=..., is_accessible=False, ...)\<close> with the defaults of the
  dataclass.\<close>

definition inaccessible :: "string \<Rightarrow> nat option \<Rightarrow> string \<Rightarrow> website_analysis" where
  "inaccessible url status msg =
     \<lparr>base_url = url, is_accessible = False, status_code = status, content_type = None,
      page_size = None, has_navigation = False, language = ''unknown'',
      sustainability_section_found = False, sustainability_links_found = 0,
      total_links_found = 0, error_message = Some msg\<rparr>"

definition detect_navigation :: "soup \<Rightarrow> bool" where
  "detect_navigation sp =
     (list_ex (\<lambda>t. t_name t = ''nav'') (s_tags sp) \<or>
      list_ex (class_matches (Lit ''nav'')) (s_tags sp) \<or>
      list_ex (\<lambda>t. case attr t ''id'' of None \<Rightarrow> False
                    | Some i \<Rightarrow> re_search True (Lit ''nav'') i \<noteq> None) (s_tags sp) \<or>
      list_ex (\<lambda>t. t_name t = ''ul'' \<and> class_matches (Lit ''menu'') t) (s_tags sp))"

definition detect_language :: "soup \<Rightarrow> string" where
  "detect_language sp =
     (case (case find (\<lambda>t. t_name t = ''html'') (s_tags sp) of
              None \<Rightarrow> None
            | Some h \<Rightarrow> (case attr h ''lang'' of None \<Rightarrow> None
                         | Some l \<Rightarrow> if l = [] then None else Some l)) of
        Some l \<Rightarrow> py_lower (take 2 l)
      | None \<Rightarrow>
          (case (case find (\<lambda>t. t_name t = ''meta'' \<and> attr t ''http-equiv'' = Some ''content-language'')
                          (s_tags sp) of
                   None \<Rightarrow> None
                 | Some m \<Rightarrow> (case attr m ''content'' of None \<Rightarrow> None
                              | Some l \<Rightarrow> if l = [] then None else Some l)) of
             Some l \<Rightarrow> py_lower (take 2 l)
           | None \<Rightarrow> ''en''))"

text \<open>\<^verbatim>\<open>str(n)\<close> for the status in \<^verbatim>\<open>f"HTTP {response.status}"\<close>.\<close>

fun digits_of :: "nat \<Rightarrow> nat \<Rightarrow> string" where
  "digits_of 0 n = []"
| "digits_of (Suc k) n =
     (if n < 10 then [char_of (48 + n)]
      else digits_of k (n div 10) @ [char_of (48 + n mod 10)])"

definition str_nat :: "nat \<Rightarrow> string" where
  "str_nat n = digits_of (Suc n) n"

text \<open>
  \<^verbatim>\<open>_analyze_website_structure\<close>. Every exception raised inside its \<^verbatim>\<open>try\<close> gives an
  inaccessible result for the URL as passed in and the empty page. The value of
  \<^verbatim>\<open>homepage_has_esg\<close> is the pair the strategy returns, which is never falsy, so
  \<^verbatim>\<open>sustainability_section_found\<close> is truthy whenever the page was read.
\<close>

definition analyze_website_structure ::
  "crawler \<Rightarrow> environment \<Rightarrow> string \<Rightarrow> website_analysis \<times> soup"
where
  "analyze_website_structure c env url =
     (case normalize_url url of
        Inl e \<Rightarrow> (inaccessible url None (str_of_error e), empty_soup)
      | Inr normalized_url \<Rightarrow>
     (case fetch env normalized_url of
        Fetch_timeout \<Rightarrow> (inaccessible url None ''Request timeout'', empty_soup)
      | Fetch_raises msg \<Rightarrow> (inaccessible url None msg, empty_soup)
      | Fetch_response status ctype body \<Rightarrow>
          if status \<noteq> 200
          then (inaccessible normalized_url (Some status) (''HTTP '' @ str_nat status), empty_soup)
          else
     (case body of
        Inl msg \<Rightarrow> (inaccessible url None msg, empty_soup)
      | Inr content \<Rightarrow>
     (case parse_html env content of
        Inl msg \<Rightarrow> (inaccessible url None msg, empty_soup)
      | Inr sp \<Rightarrow>
     (case extract_links (urljoin env) sp normalized_url of
        Inl e \<Rightarrow> (inaccessible url None (str_of_error e), empty_soup)
      | Inr all_links \<Rightarrow>
     (case detect_esg_content c sp of
        Inl e \<Rightarrow> (inaccessible url None (str_of_error e), empty_soup)
      | Inr homepage_has_esg \<Rightarrow>
          (let esg_links = filter_esg_links all_links in
           (\<lparr>base_url = normalized_url, is_accessible = True, status_code = Some status,
             content_type = Some (get_or [] ctype), page_size = Some (length content),
             has_navigation = detect_navigation sp, language = detect_language sp,
             sustainability_section_found = True,
             sustainability_links_found = length esg_links,
             total_links_found = length all_links,
             error_message = None\<rparr>, sp))))))))"

record analysis_result =
  company_website :: string
  site_analysis :: website_analysis
  has_esg_reports :: bool
  crawling_evidence :: "evidence option"
  crawler_config :: "nat option"

definition error_result :: "string \<Rightarrow> string \<Rightarrow> analysis_result" where
  "error_result url msg =
     \<lparr>company_website = url, site_analysis = inaccessible url None msg,
      has_esg_reports = False, crawling_evidence = None, crawler_config = None\<rparr>"

definition analyze_company_website :: "crawler \<Rightarrow> environment \<Rightarrow> string \<Rightarrow> analysis_result" where
  "analyze_company_website c env url =
     (case analyze_website_structure c env url of
        (wa, sp) \<Rightarrow>
          (case detect_esg_content c sp of
             Inl e \<Rightarrow> error_result url (str_of_error e)
           | Inr (has_esg, ev) \<Rightarrow>
               \<lparr>company_website = url, site_analysis = wa, has_esg_reports = has_esg,
                crawling_evidence =
                  Some (ev\<lparr>url_patterns_found := detect_esg_url_patterns url\<rparr>),
                crawler_config = Some (max_depth c)\<rparr>))"



section \<open>Predicates used in the statements\<close>

text \<open>The evidence reports a score between 0 and 10 and a confidence between 0 and 1.\<close>

definition in_bounds :: "evidence \<Rightarrow> bool" where
  "in_bounds ev =
     (case sustainability_score ev of
        None \<Rightarrow> False
      | Some s \<Rightarrow>
          (case confidence_level ev of
             None \<Rightarrow> False
           | Some c \<Rightarrow> 0 \<le> s \<and> s \<le> 10 \<and> 0 \<le> c \<and> c \<le> 1))"


section \<open>Example inputs\<close>

text \<open>NLP tools that raise: the libraries import, their data is missing.\<close>

definition failing_tools :: nlp_tools where
  "failing_tools =
     \<lparr>polarity_scores = (\<lambda>text. None), sent_tokenize = (\<lambda>text. None),
      word_tokenize = (\<lambda>text. None), stopwords_english = None, lemmatize = (\<lambda>word. None)\<rparr>"

text \<open>The page \<^verbatim>\<open><title>Sustainability ESG CSR</title>\<close>.\<close>

definition esg_title_page :: soup where
  "esg_title_page =
     \<lparr>s_text = ''Sustainability ESG CSR'',
      s_tags = [\<lparr>t_name = ''title'', t_class = [], t_attrs = [],
                 t_text = ''Sustainability ESG CSR''\<rparr>]\<rparr>"

definition crawler_v2 :: crawler where
  "crawler_v2 = \<lparr>version = ''2.0'', nlp = NLP_unavailable, max_depth = 2\<rparr>"


definition serving_env :: environment where
  "serving_env =
     \<lparr>fetch = (\<lambda>url. Fetch_response 200 (Some ''text/html'')
                        (Inr ''<title>Sustainability ESG CSR</title>'')),
      parse_html = (\<lambda>content. Inr esg_title_page),
      urljoin = (\<lambda>base href. Inr href)\<rparr>"

section \<open>The parts of a URL, for the proofs about the normalizer\<close>

text \<open>A character that \<^verbatim>\<open>str.lower\<close> neither changes nor produces.\<close>

definition caseless :: "char \<Rightarrow> bool" where
  "caseless x = (let n = (of_char x :: nat) in n < 65 \<or> (90 < n \<and> n < 97) \<or> (122 < n \<and> n < 192))"










text \<open>The \<^verbatim>\<open>hostname\<close> property of a parse result, computed from its network location:
  the text after the last \<^verbatim>\<open>@\<close>, then what stands between square brackets or before
  the first colon, in lower case up to a \<^verbatim>\<open>%\<close>.\<close>

definition hostinfo :: "string \<Rightarrow> string" where
  "hostinfo nl = rev (takeWhile (\<lambda>c. c \<noteq> CHR ''@'') (rev nl))"

definition host_core :: "string \<Rightarrow> string" where
  "host_core nl =
     (let h = hostinfo nl in
      if CHR ''['' \<in> set h
      then takeWhile (\<lambda>c. c \<noteq> CHR '']'') (drop 1 (dropWhile (\<lambda>c. c \<noteq> CHR ''['') h))
      else takeWhile (\<lambda>c. c \<noteq> CHR '':'') h)"

definition hostname :: "string \<Rightarrow> string" where
  "hostname nl =
     (let h = host_core nl; a = takeWhile (\<lambda>c. c \<noteq> CHR ''%'') h
      in py_lower a @ drop (length a) h)"

text \<open>A page with six links, and a stand-in for \<^verbatim>\<open>urljoin\<close> that keeps an absolute URL
  and appends anything else to the base.\<close>

definition simple_join :: "string \<Rightarrow> string \<Rightarrow> py_error + string" where
  "simple_join base href = (if is_http href then Inr href else Inr (rstrip_slash base @ href))"

definition anchor :: "string \<Rightarrow> string \<Rightarrow> tag" where
  "anchor href text = \<lparr>t_name = ''a'', t_class = [], t_attrs = [(''href'', href)], t_text = text\<rparr>"

definition links_page :: soup where
  "links_page =
     \<lparr>s_text = ''Top Mail ESG ESG Other Report'',
      s_tags = [anchor ''#top'' ''Top'', anchor ''mailto:ir@example.com'' ''Mail'',
                anchor '' /esg '' ''ESG'', anchor ''/esg'' ''ESG'',
                anchor ''https://other.com/x'' ''Other'',
                anchor ''https://EXAMPLE.com/report.pdf'' ''Report'']\<rparr>"

text \<open>The example text of the specification, as a page without elements and as a page
  whose title is that text.\<close>

definition report_text :: string where
  "report_text = ''Our Sustainability Report 2023 targets net zero by 2030.''"

definition report_page :: soup where
  "report_page = \<lparr>s_text = report_text, s_tags = []\<rparr>"

definition titled_report_page :: soup where
  "titled_report_page =
     \<lparr>s_text = report_text,
      s_tags = [\<lparr>t_name = ''title'', t_class = [], t_attrs = [], t_text = report_text\<rparr>]\<rparr>"

section \<open>Properties of the URL pattern filter\<close>

lemma starts_nil_iff: "starts ic [] p = (p = [])"
  by (cases p) simp_all

lemma re_scan_Lit: "(re_scan False (Lit p) l s = None) = (find_sub p s = None)"
  by (induction s arbitrary: l) (simp_all add: starts_nil_iff startswith_def)

lemma re_search_Lit: "(re_search False (Lit p) s \<noteq> None) = contains p s"
  by (simp add: re_search_def contains_def re_scan_Lit del: not_None_eq)

lemma filter_esg_links_single:
  "(filter_esg_links [u] = [u]) = list_ex (\<lambda>p. contains p (py_lower u)) esg_url_patterns"
  by (simp add: filter_esg_links_def re_search_Lit del: not_None_eq)

lemma detect_esg_url_patterns_nonempty:
  "(detect_esg_url_patterns u \<noteq> []) = list_ex (\<lambda>p. contains p (py_lower u)) esg_patterns"
  by (simp add: detect_esg_url_patterns_def filter_empty_conv list_ex_iff)

text \<open>
  C9 (as amended). The link filter tests 13 patterns. The check of the analysed URL has
  a list of its own with 11 of them: \<^verbatim>\<open>/investor-relations\<close> and \<^verbatim>\<open>/responsibility\<close> are
  missing. So a URL flagged by the check of the analysed URL always passes the link
  filter, and a URL passes the link filter exactly when it is flagged by that check or
  holds one of the two missing patterns.
\<close>

theorem url_pattern_lists:
  "length esg_url_patterns = 13 \<and> length esg_patterns = 11 \<and>
   set esg_patterns \<subseteq> set esg_url_patterns \<and>
   (detect_esg_url_patterns u \<noteq> [] \<longrightarrow> filter_esg_links [u] = [u]) \<and>
   ((filter_esg_links [u] = [u]) =
      (detect_esg_url_patterns u \<noteq> [] \<or>
       contains ''/investor-relations'' (py_lower u) \<or>
       contains ''/responsibility'' (py_lower u)))"
proof -
  have lists: "length esg_url_patterns = 13 \<and> length esg_patterns = 11 \<and>
      set esg_patterns \<subseteq> set esg_url_patterns"
    by (simp add: esg_url_patterns_def esg_patterns_def)
  have eq: "(filter_esg_links [u] = [u]) =
      (detect_esg_url_patterns u \<noteq> [] \<or>
       contains ''/investor-relations'' (py_lower u) \<or>
       contains ''/responsibility'' (py_lower u))"
    unfolding filter_esg_links_single detect_esg_url_patterns_nonempty
    by (simp add: esg_url_patterns_def esg_patterns_def) blast
  from lists eq show ?thesis by blast
qed

theorem url_pattern_lists_witness:
  "detect_esg_url_patterns ''https://Example.com/ESG/carbon'' = [''/esg'', ''/carbon''] \<and>
   filter_esg_links [''https://Example.com/ESG/carbon''] = [''https://Example.com/ESG/carbon'']"
proof -
  have d: "detect_esg_url_patterns ''https://Example.com/ESG/carbon'' = [''/esg'', ''/carbon'']"
    by code_simp
  then have "detect_esg_url_patterns ''https://Example.com/ESG/carbon'' \<noteq> []"
    by simp
  with url_pattern_lists [of "''https://Example.com/ESG/carbon''"] d show ?thesis
    by blast
qed

text \<open>C9 as stated fails: a URL with \<^verbatim>\<open>/investor-relations\<close> passes the link filter and is
  not flagged by the check of the analysed URL.\<close>

theorem url_pattern_lists_counterexample:
  "\<not> (\<forall>u. (detect_esg_url_patterns u \<noteq> []) = (filter_esg_links [u] = [u]))"
proof
  assume a: "\<forall>u. (detect_esg_url_patterns u \<noteq> []) = (filter_esg_links [u] = [u])"
  have f: "filter_esg_links [''https://example.com/investor-relations'']
      = [''https://example.com/investor-relations'']"
    by code_simp
  have d: "detect_esg_url_patterns ''https://example.com/investor-relations'' = []"
    by code_simp
  from a f d show False by blast
qed

section \<open>Score bounds\<close>

lemma py_round_lower:
  assumes "of_int k / 10 ^ nd \<le> x"
  shows "of_int k / 10 ^ nd \<le> py_round x nd"
proof -
  have p: "(0::rat) < 10 ^ nd" by simp
  from assms have "of_int k \<le> x * 10 ^ nd"
    by (simp add: pos_divide_le_eq)
  then have "k \<le> \<lfloor>x * 10 ^ nd\<rfloor>" by (simp add: le_floor_iff)
  then have "(of_int k :: rat) \<le> of_int (if x * 10 ^ nd - of_int \<lfloor>x * 10 ^ nd\<rfloor> < 1 / 2 then \<lfloor>x * 10 ^ nd\<rfloor>
       else if 1 / 2 < x * 10 ^ nd - of_int \<lfloor>x * 10 ^ nd\<rfloor> then \<lfloor>x * 10 ^ nd\<rfloor> + 1
       else if even \<lfloor>x * 10 ^ nd\<rfloor> then \<lfloor>x * 10 ^ nd\<rfloor> else \<lfloor>x * 10 ^ nd\<rfloor> + 1)"
    by auto
  then show ?thesis
    unfolding py_round_def Let_def by (simp add: divide_right_mono)
qed

lemma py_round_upper:
  assumes "x \<le> of_int k / 10 ^ nd"
  shows "py_round x nd \<le> of_int k / 10 ^ nd"
proof -
  let ?y = "x * 10 ^ nd"
  from assms have yk: "?y \<le> of_int k"
    by (simp add: pos_le_divide_eq)
  have "(if ?y - of_int \<lfloor>?y\<rfloor> < 1 / 2 then \<lfloor>?y\<rfloor>
       else if 1 / 2 < ?y - of_int \<lfloor>?y\<rfloor> then \<lfloor>?y\<rfloor> + 1
       else if even \<lfloor>?y\<rfloor> then \<lfloor>?y\<rfloor> else \<lfloor>?y\<rfloor> + 1) \<le> k"
  proof (cases "?y = of_int k")
    case True
    then show ?thesis by simp
  next
    case False
    with yk have "?y < of_int k" by simp
    then have "\<lfloor>?y\<rfloor> < k" by (simp add: floor_less_iff)
    then show ?thesis by auto
  qed
  then have "(of_int (if ?y - of_int \<lfloor>?y\<rfloor> < 1 / 2 then \<lfloor>?y\<rfloor>
       else if 1 / 2 < ?y - of_int \<lfloor>?y\<rfloor> then \<lfloor>?y\<rfloor> + 1
       else if even \<lfloor>?y\<rfloor> then \<lfloor>?y\<rfloor> else \<lfloor>?y\<rfloor> + 1) :: rat) \<le> of_int k"
    by (simp only: of_int_le_iff)
  then show ?thesis
    unfolding py_round_def Let_def by (simp add: divide_right_mono)
qed

lemma py_round_range:
  assumes "0 \<le> x" "x \<le> of_nat n"
  shows "0 \<le> py_round x nd \<and> py_round x nd \<le> of_nat n"
proof -
  have "of_int 0 / 10 ^ nd \<le> py_round x nd"
    by (rule py_round_lower) (use assms in simp)
  moreover have "py_round x nd \<le> of_int (int n * 10 ^ nd) / 10 ^ nd"
    by (rule py_round_upper) (use assms in simp)
  ultimately show ?thesis by simp
qed

lemma v2_score_bounds:
  "\<exists>s. sustainability_score (snd (detect_esg_content_v2 sp)) = Some s \<and> 0 \<le> s \<and> s \<le> 10"
proof -
  have r: "\<And>x::rat. 0 \<le> x \<Longrightarrow> 0 \<le> py_round (min 10 x) 2 \<and> py_round (min 10 x) 2 \<le> 10"
    using py_round_range [of _ 10 2] by simp
  show ?thesis
    unfolding detect_esg_content_v2_def Let_def
    by (simp add: r add_nonneg_nonneg)
qed

lemma v2_confidence_bounds:
  "\<exists>c. confidence_level (snd (detect_esg_content_v2 sp)) = Some c \<and> 0 \<le> c \<and> c \<le> 1"
proof -
  have r: "\<And>x::rat. 0 \<le> x \<Longrightarrow> 0 \<le> py_round (min 1 x) 3 \<and> py_round (min 1 x) 3 \<le> 1"
    using py_round_range [of _ 1 3] by simp
  show ?thesis
    unfolding detect_esg_content_v2_def Let_def
    by (simp add: r add_nonneg_nonneg)
qed

lemma v3_score_bounds:
  "\<exists>s. sustainability_score (snd (detect_esg_content_v3 sp)) = Some s \<and> 0 \<le> s \<and> s \<le> 10"
proof -
  obtain s where s: "sustainability_score (snd (detect_esg_content_v2 sp)) = Some s" "0 \<le> s"
    using v2_score_bounds by blast
  show ?thesis
    unfolding detect_esg_content_v3_def Let_def
    using s by (simp add: split_beta get_or_def add_nonneg_nonneg)
qed

lemma v3_confidence_bounds:
  "\<exists>c. confidence_level (snd (detect_esg_content_v3 sp)) = Some c \<and> 0 \<le> c \<and> c \<le> 1"
proof -
  obtain s where s: "confidence_level (snd (detect_esg_content_v2 sp)) = Some s" "0 \<le> s"
    using v2_confidence_bounds by blast
  show ?thesis
    unfolding detect_esg_content_v3_def Let_def
    using s by (simp add: split_beta get_or_def add_nonneg_nonneg)
qed

lemma perform_fields:
  assumes "perform_nlp_analysis tools text = Some r"
  shows "commitment_strength r = analyze_commitment_strength text"
    and "credibility_indicators r = analyze_credibility_indicators text"
    and "esg_topics_identified r = identify_esg_topics text"
    and "named_entities r = extract_esg_entities text"
  using assms unfolding perform_nlp_analysis_def Let_def
  by (auto split: option.splits)

lemma commitment_nonneg: "0 \<le> analyze_commitment_strength text"
  unfolding analyze_commitment_strength_def Let_def by simp

lemma credibility_nonneg: "0 \<le> overall_credibility (analyze_credibility_indicators text)"
  unfolding analyze_credibility_indicators_def Let_def credibility_categories_def by simp

lemma nlp_score_nonneg: "0 \<le> calculate_nlp_score (perform_nlp_analysis tools text)"
proof (cases "perform_nlp_analysis tools text")
  case None
  then show ?thesis by (simp add: calculate_nlp_score_def)
next
  case (Some r)
  have "0 \<le> commitment_strength r" "0 \<le> overall_credibility (credibility_indicators r)"
    using perform_fields(1,2) [OF Some] commitment_nonneg credibility_nonneg by simp_all
  then show ?thesis
    using Some unfolding calculate_nlp_score_def Let_def
    by (simp add: add_nonneg_nonneg)
qed

lemma nlp_confidence_nonneg: "0 \<le> calculate_nlp_confidence n"
  unfolding calculate_nlp_confidence_def Let_def
  by (cases n) (simp_all add: add_nonneg_nonneg)

lemma v4_bounds:
  assumes "detect_esg_content_v4 cap sp = Inr (h, ev)"
  shows "\<exists>s c. sustainability_score ev = Some s \<and> confidence_level ev = Some c \<and>
           0 \<le> s \<and> s \<le> 10 \<and> 0 \<le> c \<and> c \<le> 1"
proof (cases cap)
  case NLP_unavailable
  with assms have "snd (detect_esg_content_v3 sp) = ev"
    by (simp add: detect_esg_content_v4_def)
  then show ?thesis using v3_score_bounds [of sp] v3_confidence_bounds [of sp] by auto
next
  case (NLP_available tools)
  obtain s where s: "sustainability_score (snd (detect_esg_content_v3 sp)) = Some s" "0 \<le> s"
    using v3_score_bounds by blast
  obtain c where c: "confidence_level (snd (detect_esg_content_v3 sp)) = Some c" "0 \<le> c"
    using v3_confidence_bounds by blast
  have n1: "0 \<le> s + calculate_nlp_score (perform_nlp_analysis tools (s_text sp))"
    using s nlp_score_nonneg by (simp add: add_nonneg_nonneg)
  have n2: "0 \<le> c + calculate_nlp_confidence (perform_nlp_analysis tools (s_text sp))"
    using c nlp_confidence_nonneg by (simp add: add_nonneg_nonneg)
  from assms NLP_available s c n1 n2 show ?thesis
    unfolding detect_esg_content_v4_def Let_def
    by (auto simp: split_beta get_or_def split: if_splits option.splits)
qed

text \<open>
  C2. The score of v2, v3 and v4 lies in [0, 10] and the confidence in [0, 1], for every
  page and every NLP capability. When v4 raises instead of returning (see
  \<open>detect_esg_content_v4\<close>) it reports nothing.
\<close>

theorem score_bounds:
  "in_bounds (snd (detect_esg_content_v2 sp)) \<and>
   in_bounds (snd (detect_esg_content_v3 sp)) \<and>
   (case detect_esg_content_v4 cap sp of Inl e \<Rightarrow> True | Inr (h, ev) \<Rightarrow> in_bounds ev)"
proof -
  have "in_bounds (snd (detect_esg_content_v2 sp))"
    using v2_score_bounds [of sp] v2_confidence_bounds [of sp]
    by (auto simp: in_bounds_def)
  moreover have "in_bounds (snd (detect_esg_content_v3 sp))"
    using v3_score_bounds [of sp] v3_confidence_bounds [of sp]
    by (auto simp: in_bounds_def)
  moreover have "case detect_esg_content_v4 cap sp of Inl e \<Rightarrow> True | Inr (h, ev) \<Rightarrow> in_bounds ev"
  proof (cases "detect_esg_content_v4 cap sp")
    case (Inl e)
    then show ?thesis by simp
  next
    case (Inr p)
    obtain h ev where p: "p = (h, ev)" by (cases p)
    from v4_bounds [of cap sp h ev] Inr p show ?thesis
      by (auto simp: in_bounds_def)
  qed
  ultimately show ?thesis by blast
qed

theorem score_bounds_witness:
  "\<exists>h ev. detect_esg_content_v4 NLP_unavailable empty_soup = Inr (h, ev) \<and> in_bounds ev \<and>
     in_bounds (snd (detect_esg_content_v2 empty_soup))"
proof -
  have "detect_esg_content_v4 NLP_unavailable empty_soup = Inr (detect_esg_content_v3 empty_soup)"
    by (simp add: detect_esg_content_v4_def)
  with score_bounds [of empty_soup NLP_unavailable] show ?thesis
    by (cases "detect_esg_content_v3 empty_soup") auto
qed

section \<open>The empty page\<close>





lemma forward_length: "length (extract_forward_looking_statements ss) \<le> 5"
  by (simp add: extract_forward_looking_statements_def)







section \<open>Monotonicity of the strategies\<close>

lemma v2_implies_v3: "fst (detect_esg_content_v2 sp) \<Longrightarrow> fst (detect_esg_content_v3 sp)"
  unfolding detect_esg_content_v3_def Let_def
  by (simp add: split_beta)

lemma v3_implies_v4_unavailable:
  "detect_esg_content_v4 NLP_unavailable sp = Inr (detect_esg_content_v3 sp)"
  by (simp add: detect_esg_content_v4_def)

lemma v3_implies_v4_available:
  assumes "fst (detect_esg_content_v3 sp)" "perform_nlp_analysis tools (s_text sp) = Some r"
  shows "\<exists>ev. detect_esg_content_v4 (NLP_available tools) sp = Inr (True, ev)"
  using assms unfolding detect_esg_content_v4_def Let_def
  by (auto simp: split_beta)

text \<open>
  C1 (a defect of the code). With version 4.0, the NLP libraries importable and the NLP
  analysis failing, \<^verbatim>\<open>_perform_nlp_analysis\<close> returns the empty dictionary. On the page
  \<^verbatim>\<open><title>Sustainability ESG CSR</title>\<close> v2 and v3 decide true (three title matches,
  confidence 0.6), the v4 score 1.2 and confidence 0.6 are under their thresholds, and
  the decision reads \<^verbatim>\<open>nlp_results["commitment_strength"]\<close>: v4 raises \<^verbatim>\<open>KeyError\<close>
  and returns no decision.
\<close>

theorem v4_raises_after_v3_positive:
  "fst (detect_esg_content_v2 esg_title_page) \<and> fst (detect_esg_content_v3 esg_title_page) \<and>
   detect_esg_content_v4 (NLP_available failing_tools) esg_title_page
     = Inl (KeyError ''commitment_strength'')"
  by code_simp

theorem v4_raises_after_v3_positive_witness:
  "\<forall>ev. detect_esg_content_v4 (NLP_available failing_tools) esg_title_page \<noteq> Inr (True, ev)"
  using v4_raises_after_v3_positive by simp

text \<open>
  C5 (the same defect). On the empty page, with version 4.0, the NLP libraries importable
  and the NLP analysis failing, v4 raises \<^verbatim>\<open>KeyError\<close> instead of returning
  \<^verbatim>\<open>has_esg=false\<close> with score 0 and confidence 0.3.
\<close>

theorem v4_raises_on_empty_page:
  "detect_esg_content_v4 (NLP_available failing_tools) empty_soup
     = Inl (KeyError ''commitment_strength'')"
  by code_simp

theorem v4_raises_on_empty_page_witness:
  "\<forall>ev. detect_esg_content_v4 (NLP_available failing_tools) empty_soup \<noteq> Inr (False, ev)"
  using v4_raises_on_empty_page by simp

section \<open>Failures of one target\<close>





section \<open>The verdict and the input URL\<close>

text \<open>
  C10. The verdict and the scores of an analysis are computed from the parsed page alone:
  two runs whose parsed page is the same give the same \<^verbatim>\<open>has_esg_reports\<close>,
  \<^verbatim>\<open>sustainability_score\<close> and \<^verbatim>\<open>confidence_level\<close>, whatever the input URLs.
  \<^verbatim>\<open>url_patterns_found\<close> is written into the evidence after the strategy has decided.
\<close>

theorem verdict_from_page_only:
  assumes "snd (analyze_website_structure c env url1) = snd (analyze_website_structure c env url2)"
  shows "has_esg_reports (analyze_company_website c env url1)
           = has_esg_reports (analyze_company_website c env url2) \<and>
         map_option sustainability_score (crawling_evidence (analyze_company_website c env url1))
           = map_option sustainability_score (crawling_evidence (analyze_company_website c env url2)) \<and>
         map_option confidence_level (crawling_evidence (analyze_company_website c env url1))
           = map_option confidence_level (crawling_evidence (analyze_company_website c env url2))"
  using assms unfolding analyze_company_website_def
  by (auto simp: split_beta error_result_def split: sum.splits)

lemma serving_structure:
  assumes "normalize_url url = Inr n"
  shows "snd (analyze_website_structure crawler_v2 serving_env url) = esg_title_page"
proof -
  have l: "extract_links uj esg_title_page n = Inr []" for uj
    by (simp add: extract_links_def anchors_def esg_title_page_def)
  have d: "detect_esg_content crawler_v2 esg_title_page = Inr (detect_esg_content_v2 esg_title_page)"
    by (simp add: detect_esg_content_def crawler_v2_def)
  show ?thesis
    unfolding analyze_website_structure_def
    by (simp add: assms l d serving_env_def Let_def)
qed

theorem verdict_from_page_only_witness:
  "snd (analyze_website_structure crawler_v2 serving_env ''example.com'')
     = snd (analyze_website_structure crawler_v2 serving_env ''example.com/esg'') \<and>
   has_esg_reports (analyze_company_website crawler_v2 serving_env ''example.com'')
     = has_esg_reports (analyze_company_website crawler_v2 serving_env ''example.com/esg'') \<and>
   has_esg_reports (analyze_company_website crawler_v2 serving_env ''example.com'')"
proof -
  have n1: "normalize_url ''example.com'' = Inr ''https://example.com/''"
    by code_simp
  have n2: "normalize_url ''example.com/esg'' = Inr ''https://example.com/esg''"
    by code_simp
  have h: "snd (analyze_website_structure crawler_v2 serving_env ''example.com'')
     = snd (analyze_website_structure crawler_v2 serving_env ''example.com/esg'')"
    by (simp only: serving_structure [OF n1] serving_structure [OF n2])
  have v: "fst (detect_esg_content_v2 esg_title_page)"
    by code_simp
  have t: "has_esg_reports (analyze_company_website crawler_v2 serving_env ''example.com'')"
    using v serving_structure [OF n1]
    unfolding analyze_company_website_def
    by (cases "analyze_website_structure crawler_v2 serving_env ''example.com''")
       (simp add: detect_esg_content_def crawler_v2_def split_beta)
  from verdict_from_page_only [OF h] h t show ?thesis by blast
qed

section \<open>Properties of the URL normalizer\<close>

lemma lower_char_cases:
  "lower_char c = c \<or>
   (of_char (lower_char c) :: nat) = of_char c + 32 \<and>
   ((65 \<le> (of_char c :: nat) \<and> (of_char c :: nat) \<le> 90) \<or>
    (192 \<le> (of_char c :: nat) \<and> (of_char c :: nat) \<le> 222))"
  by (cases c) (auto simp: Let_def)

lemma lower_char_fixed:
  assumes "caseless x"
  shows "(lower_char c = x) = (c = x)"
proof
  assume a: "lower_char c = x"
  from lower_char_cases [of c] a assms show "c = x"
    by (auto simp: caseless_def Let_def)
next
  assume "c = x"
  with assms lower_char_cases [of x] show "lower_char c = x"
    by (auto simp: caseless_def Let_def)
qed

lemma lower_slash: "(lower_char c = CHR ''/'') = (c = CHR ''/'')"
  by (rule lower_char_fixed) (simp add: caseless_def)

lemma lower_idem: "lower_char (lower_char c) = lower_char c"
  using lower_char_cases [of c] lower_char_cases [of "lower_char c"] by auto

lemma starts_False_iff: "starts False s p = (\<exists>r. s = p @ r)"
proof (induction p arbitrary: s)
  case Nil
  then show ?case by simp
next
  case (Cons a p)
  then show ?case by (cases s) auto
qed

lemma startswith_iff: "startswith s p = (\<exists>r. s = p @ r)"
  by (simp add: startswith_def starts_False_iff)













lemma py_lower_mem:
  assumes "caseless x"
  shows "(x \<in> set (py_lower s)) = (x \<in> set s)"
proof -
  have "(x \<in> set (py_lower s)) = (\<exists>c\<in>set s. lower_char c = x)"
    by (auto simp: py_lower_def)
  then show ?thesis by (simp only: lower_char_fixed [OF assms]) simp
qed
































section \<open>Properties of the link extractor\<close>

lemma lower_takeWhile:
  assumes "caseless x"
  shows "py_lower (takeWhile (\<lambda>c. c \<noteq> x) s) = takeWhile (\<lambda>c. c \<noteq> x) (py_lower s)"
  unfolding py_lower_def takeWhile_map
  by (simp add: comp_def lower_char_fixed [OF assms])

lemma lower_dropWhile:
  assumes "caseless x"
  shows "py_lower (dropWhile (\<lambda>c. c \<noteq> x) s) = dropWhile (\<lambda>c. c \<noteq> x) (py_lower s)"
  unfolding py_lower_def dropWhile_map
  by (simp add: comp_def lower_char_fixed [OF assms])

lemma lower_rev: "py_lower (rev s) = rev (py_lower s)"
  by (simp add: py_lower_def rev_map)

lemma lower_drop: "py_lower (drop n s) = drop n (py_lower s)"
  by (simp add: py_lower_def drop_map)

lemma host_caseless:
  "caseless CHR ''@''" "caseless CHR ''[''" "caseless CHR '']''" "caseless CHR '':''"
  "caseless CHR ''%''"
  by (simp_all add: caseless_def)

lemma lower_hostinfo: "py_lower (hostinfo nl) = hostinfo (py_lower nl)"
  by (simp add: hostinfo_def lower_rev lower_takeWhile host_caseless)

lemma lower_host_core: "py_lower (host_core nl) = host_core (py_lower nl)"
  unfolding host_core_def Let_def
  by (simp add: lower_hostinfo [symmetric] py_lower_mem host_caseless
      lower_takeWhile lower_dropWhile lower_drop)

lemma lower_hostname: "py_lower (hostname nl) = host_core (py_lower nl)"
proof -
  have "py_lower (hostname nl) = py_lower (takeWhile (\<lambda>c. c \<noteq> CHR ''%'') (host_core nl)
          @ drop (length (takeWhile (\<lambda>c. c \<noteq> CHR ''%'') (host_core nl))) (host_core nl))"
    unfolding hostname_def Let_def by (simp add: py_lower_def lower_idem)
  also have "\<dots> = py_lower (host_core nl)"
    by (metis takeWhile_dropWhile_id dropWhile_eq_drop)
  finally show ?thesis by (simp add: lower_host_core)
qed

lemma same_domain_hosts:
  assumes "is_same_domain link base"
  shows "\<exists>l b. urlparse link = Inr l \<and> urlparse base = Inr b \<and>
           py_lower (netloc l) = py_lower (netloc b) \<and>
           py_lower (hostname (netloc l)) = py_lower (hostname (netloc b))"
  using assms unfolding is_same_domain_def
  by (auto simp: lower_hostname split: sum.splits)

lemma collect_links_sound:
  assumes "collect_links uj base ts = Inr links"
  shows "\<forall>u\<in>set links. is_http u \<and> is_same_domain u base \<and>
           (\<exists>t\<in>set ts. \<not> skipped_href (py_strip (href_of t)) \<and>
                         uj base (py_strip (href_of t)) = Inr u)"
  using assms
proof (induction ts arbitrary: links)
  case Nil
  then show ?case by simp
next
  case (Cons t ts)
  show ?case
  proof (cases "skipped_href (py_strip (href_of t))")
    case True
    with Cons show ?thesis by (auto simp: Let_def)
  next
    case False
    then obtain a where a: "uj base (py_strip (href_of t)) = Inr a"
      using Cons.prems by (auto simp: Let_def split: sum.splits)
    then obtain rest where r: "collect_links uj base ts = Inr rest"
      using Cons.prems False by (auto simp: Let_def split: sum.splits)
    from Cons.IH [OF r] have ih: "\<forall>u\<in>set rest. is_http u \<and> is_same_domain u base \<and>
           (\<exists>t\<in>set ts. \<not> skipped_href (py_strip (href_of t)) \<and>
                         uj base (py_strip (href_of t)) = Inr u)" .
    from Cons.prems False a r have "links = (if is_http a \<and> is_same_domain a base then a # rest else rest)"
      by (auto simp: Let_def)
    with ih False a show ?thesis by (auto split: if_splits)
  qed
qed

lemma is_http_not_special:
  assumes "is_http u"
  shows "\<not> startswith u ''#'' \<and> \<not> startswith u ''javascript:'' \<and>
         \<not> startswith u ''mailto:'' \<and> \<not> startswith u ''tel:''"
  using assms by (auto simp: is_http_def startswith_iff)

text \<open>
  C8. Every URL the link extractor returns starts with \<^verbatim>\<open>http://\<close> or \<^verbatim>\<open>https://\<close>, so it
  is no in-page anchor and no \<^verbatim>\<open>javascript:\<close>, \<^verbatim>\<open>mailto:\<close> or \<^verbatim>\<open>tel:\<close> target; it is the
  join of the base URL with the \<^verbatim>\<open>href\<close> of an anchor that is none of these either; its
  network location, and so its host, equals that of the base URL when case is ignored;
  and the returned list has no duplicates.
\<close>

theorem extract_links_sound:
  assumes "extract_links uj sp base = Inr links"
  shows "distinct links \<and>
    (\<forall>u\<in>set links.
       is_http u \<and> \<not> startswith u ''#'' \<and> \<not> startswith u ''javascript:'' \<and>
       \<not> startswith u ''mailto:'' \<and> \<not> startswith u ''tel:'' \<and>
       (\<exists>t\<in>set (anchors sp). \<not> skipped_href (py_strip (href_of t)) \<and>
                               uj base (py_strip (href_of t)) = Inr u) \<and>
       (\<exists>l b. urlparse u = Inr l \<and> urlparse base = Inr b \<and>
              py_lower (netloc l) = py_lower (netloc b) \<and>
              py_lower (hostname (netloc l)) = py_lower (hostname (netloc b))))"
proof -
  from assms obtain raw where raw: "collect_links uj base (anchors sp) = Inr raw"
      "links = remdups raw"
    by (auto simp: extract_links_def split: sum.splits)
  note s = collect_links_sound [OF raw(1)]
  show ?thesis
  proof (intro conjI ballI)
    show "distinct links" by (simp add: raw(2))
  next
    fix u assume "u \<in> set links"
    then have u: "u \<in> set raw" by (simp add: raw(2))
    with s have h: "is_http u" and d: "is_same_domain u base"
      and t: "\<exists>t\<in>set (anchors sp). \<not> skipped_href (py_strip (href_of t)) \<and>
                               uj base (py_strip (href_of t)) = Inr u"
      by blast+
    show "is_http u" by (rule h)
    show "\<not> startswith u ''#''" "\<not> startswith u ''javascript:''"
      "\<not> startswith u ''mailto:''" "\<not> startswith u ''tel:''"
      using is_http_not_special [OF h] by blast+
    show "\<exists>t\<in>set (anchors sp). \<not> skipped_href (py_strip (href_of t)) \<and>
                               uj base (py_strip (href_of t)) = Inr u" by (rule t)
    show "\<exists>l b. urlparse u = Inr l \<and> urlparse base = Inr b \<and>
              py_lower (netloc l) = py_lower (netloc b) \<and>
              py_lower (hostname (netloc l)) = py_lower (hostname (netloc b))"
      by (rule same_domain_hosts [OF d])
  qed
qed

theorem extract_links_sound_witness:
  "extract_links simple_join links_page ''https://example.com/''
     = Inr [''https://example.com/esg'', ''https://EXAMPLE.com/report.pdf''] \<and>
   distinct [''https://example.com/esg'', ''https://EXAMPLE.com/report.pdf''] \<and>
   is_same_domain ''https://EXAMPLE.com/report.pdf'' ''https://example.com/''"
proof -
  have e: "extract_links simple_join links_page ''https://example.com/''
     = Inr [''https://example.com/esg'', ''https://EXAMPLE.com/report.pdf'']"
    by code_simp
  have d: "is_same_domain ''https://EXAMPLE.com/report.pdf'' ''https://example.com/''"
    by code_simp
  from extract_links_sound [OF e] e d show ?thesis by blast
qed

section \<open>The example text under v3\<close>

lemma report_keywords:
  "filter (\<lambda>keyword. contains keyword (py_lower report_text)) high_impact
     = [''sustainability report'', ''net zero'']"
  "filter (\<lambda>keyword. contains keyword (py_lower report_text)) medium_impact = []"
  "filter (\<lambda>keyword. contains keyword (py_lower report_text)) low_impact = []"
  by code_simp+

lemma report_patterns:
  "re_search False quantitative_rx (py_lower report_text) = None"
  "re_search False targets_rx (py_lower report_text) \<noteq> None"
  by code_simp+

lemma report_quantitative:
  assumes "s_text sp = report_text"
  shows "extract_quantitative_data sp =
     \<lparr>percentages_found = [], targets_found = [], metrics_found = [],
      years_found = [''2023'', ''2030''], numerical_goals = [''net zero'']\<rparr>"
proof -
  have "extract_quantitative_data sp = extract_quantitative_data report_page"
    by (simp add: extract_quantitative_data_def assms report_page_def)
  also have "\<dots> = \<lparr>percentages_found = [], targets_found = [], metrics_found = [],
      years_found = [''2023'', ''2030''], numerical_goals = [''net zero'']\<rparr>"
    by code_simp
  finally show ?thesis .
qed

lemma round_values: "py_round (3 / 2) 2 = 3 / 2" "py_round (1 / 2) 3 = 1 / 2"
  by code_simp+

lemma report_arith:
  fixes k d d0 :: rat and s :: nat
  shows "1 \<le> k \<Longrightarrow> 6 / 10 \<le> 3 / 10 + (2 + k) * (1 / 10)"
    and "(25 / 10 \<le> min (3 / 2 + d + 8 / 100) 10) = (92 / 100 \<le> d)"
    and "s \<le> 1 \<Longrightarrow> d0 \<le> 3 / 10 \<Longrightarrow> \<not> 92 / 100 \<le> d0 + of_nat s * (15 / 100)"
proof -
  show "1 \<le> k \<Longrightarrow> 6 / 10 \<le> 3 / 10 + (2 + k) * (1 / 10)"
    by (simp add: field_simps)
  show "(25 / 10 \<le> min (3 / 2 + d + 8 / 100) 10) = (92 / 100 \<le> d)"
    by (auto simp: min_def)
  show "s \<le> 1 \<Longrightarrow> d0 \<le> 3 / 10 \<Longrightarrow> \<not> 92 / 100 \<le> d0 + of_nat s * (15 / 100)"
  proof -
    assume a: "s \<le> 1" "d0 \<le> 3 / 10"
    then have "s = 0 \<or> s = 1" by linarith
    with a(2) show ?thesis by auto
  qed
qed

lemma report_confidence:
  "(7 / 10 \<le> min (1 / 2 + min (of_nat s * (1 / 10)) (2 / 10) + (0::rat)) 1) = (2 \<le> (s::nat))"
proof (cases "2 \<le> s")
  case True
  then have "(2::rat) \<le> of_nat s" using of_nat_mono by fastforce
  then show ?thesis using True by (simp add: min_def)
next
  case False
  then have "s = 0 \<or> s = 1" by linarith
  then show ?thesis by auto
qed

lemma v2_report:
  assumes "s_text sp = report_text"
  shows "fst (detect_esg_content_v2 sp) =
           (nav_matches_of (Some (8 / 10)) sp \<noteq> [] \<or> title_matches_of (Some (9 / 10)) sp \<noteq> [])"
    and "keywords_found (snd (detect_esg_content_v2 sp)) =
           [KwImpact ''sustainability report'' ''high'', KwImpact ''net zero'' ''high'']"
    and "navigation_matches (snd (detect_esg_content_v2 sp)) = nav_matches_of (Some (8 / 10)) sp"
    and "title_matches (snd (detect_esg_content_v2 sp)) = title_matches_of (Some (9 / 10)) sp"
    and "nav_matches_of (Some (8 / 10)) sp = [] \<Longrightarrow> title_matches_of (Some (9 / 10)) sp = [] \<Longrightarrow>
           sustainability_score (snd (detect_esg_content_v2 sp)) = Some (3 / 2) \<and>
           confidence_level (snd (detect_esg_content_v2 sp)) = Some (1 / 2)"
proof -
  let ?n = "length (nav_matches_of (Some (8 / 10)) sp)"
  let ?t = "length (title_matches_of (Some (9 / 10)) sp)"
  have a: "(2 \<le> min 10 ((1/4) * 6 + of_nat ?n * (1 / 10) * 2 + of_nat ?t * (2 / 10) * 2 :: rat) \<or>
        6 / 10 \<le> min 1 (3 / 10 + of_nat (2 + ?n + ?t) * (1 / 10) :: rat)) = (?n \<noteq> 0 \<or> ?t \<noteq> 0)"
  proof (cases "?n = 0 \<and> ?t = 0")
    case True
    then show ?thesis by simp
  next
    case False
    then have "0 < ?n \<or> 0 < ?t" by simp
    then have "1 \<le> ?n + ?t" by linarith
    then have "(1 :: rat) \<le> of_nat (?n + ?t)" using of_nat_mono by fastforce
    then have "(6 / 10 :: rat) \<le> 3 / 10 + (2 + of_nat (?n + ?t)) * (1 / 10)"
      by (rule report_arith(1))
    moreover have "(of_nat (2 + ?n + ?t) :: rat) = 2 + of_nat (?n + ?t)"
      by simp
    ultimately have "(6 / 10 :: rat) \<le> 3 / 10 + of_nat (2 + ?n + ?t) * (1 / 10)"
      by (simp only:)
    then have "6 / 10 \<le> min 1 (3 / 10 + of_nat (2 + ?n + ?t) * (1 / 10) :: rat)"
      by (intro min.boundedI) simp_all
    with False show ?thesis by auto
  qed
  show "fst (detect_esg_content_v2 sp) =
           (nav_matches_of (Some (8 / 10)) sp \<noteq> [] \<or> title_matches_of (Some (9 / 10)) sp \<noteq> [])"
    using a report_patterns
    unfolding detect_esg_content_v2_def Let_def
    by (simp add: assms report_keywords)
  show "keywords_found (snd (detect_esg_content_v2 sp)) =
           [KwImpact ''sustainability report'' ''high'', KwImpact ''net zero'' ''high'']"
    unfolding detect_esg_content_v2_def Let_def
    by (simp add: assms report_keywords)
  show "navigation_matches (snd (detect_esg_content_v2 sp)) = nav_matches_of (Some (8 / 10)) sp"
    unfolding detect_esg_content_v2_def Let_def by simp
  show "title_matches (snd (detect_esg_content_v2 sp)) = title_matches_of (Some (9 / 10)) sp"
    unfolding detect_esg_content_v2_def Let_def by simp
  show "nav_matches_of (Some (8 / 10)) sp = [] \<Longrightarrow> title_matches_of (Some (9 / 10)) sp = [] \<Longrightarrow>
           sustainability_score (snd (detect_esg_content_v2 sp)) = Some (3 / 2) \<and>
           confidence_level (snd (detect_esg_content_v2 sp)) = Some (1 / 2)"
    using report_patterns round_values
    unfolding detect_esg_content_v2_def Let_def
    by (simp add: assms report_keywords)
qed

lemma doc_score_small:
  "(if 0 < total_documents_found (discover_documents sp)
    then min (of_nat (total_documents_found (discover_documents sp)) * (1 / 10)) (3 / 10) else 0 :: rat)
   \<le> 3 / 10"
  by (auto simp: min_def)

lemma v3_report:
  assumes "s_text sp = report_text"
  shows "fst (detect_esg_content_v3 sp) =
           (navigation_matches (snd (detect_esg_content_v3 sp)) \<noteq> [] \<or>
            title_matches (snd (detect_esg_content_v3 sp)) \<noteq> [] \<or>
            2 \<le> length (sustainability_documents (discover_documents sp)))"
    and "keywords_found (snd (detect_esg_content_v3 sp)) =
           [KwImpact ''sustainability report'' ''high'', KwImpact ''net zero'' ''high'']"
    and "quantitative_patterns (snd (detect_esg_content_v3 sp)) =
           Some \<lparr>percentages_found = [], targets_found = [], metrics_found = [],
                 years_found = [''2023'', ''2030''], numerical_goals = [''net zero'']\<rparr>"
proof -
  note v2 = v2_report [OF assms]
  note q = report_quantitative [OF assms]
  have nav: "navigation_matches (snd (detect_esg_content_v3 sp)) = nav_matches_of (Some (8 / 10)) sp"
    unfolding detect_esg_content_v3_def Let_def by (simp add: split_beta v2(3))
  have tit: "title_matches (snd (detect_esg_content_v3 sp)) = title_matches_of (Some (9 / 10)) sp"
    unfolding detect_esg_content_v3_def Let_def by (simp add: split_beta v2(4))
  show "keywords_found (snd (detect_esg_content_v3 sp)) =
           [KwImpact ''sustainability report'' ''high'', KwImpact ''net zero'' ''high'']"
    unfolding detect_esg_content_v3_def Let_def by (simp add: split_beta v2(2))
  show "quantitative_patterns (snd (detect_esg_content_v3 sp)) =
           Some \<lparr>percentages_found = [], targets_found = [], metrics_found = [],
                 years_found = [''2023'', ''2030''], numerical_goals = [''net zero'']\<rparr>"
    unfolding detect_esg_content_v3_def Let_def by (simp add: split_beta q)
  show "fst (detect_esg_content_v3 sp) =
           (navigation_matches (snd (detect_esg_content_v3 sp)) \<noteq> [] \<or>
            title_matches (snd (detect_esg_content_v3 sp)) \<noteq> [] \<or>
            2 \<le> length (sustainability_documents (discover_documents sp)))"
  proof (cases "fst (detect_esg_content_v2 sp)")
    case True
    then have t3: "fst (detect_esg_content_v3 sp)"
      unfolding detect_esg_content_v3_def Let_def by (simp add: split_beta)
    from True v2(1) have "nav_matches_of (Some (8 / 10)) sp \<noteq> [] \<or>
        title_matches_of (Some (9 / 10)) sp \<noteq> []" by blast
    with t3 show ?thesis unfolding nav tit by blast
  next
    case False
    with v2(1) have e: "nav_matches_of (Some (8 / 10)) sp = []" "title_matches_of (Some (9 / 10)) sp = []"
      by simp_all
    from v2(5) [OF e] have sc: "sustainability_score (snd (detect_esg_content_v2 sp)) = Some (3 / 2)"
      and cf: "confidence_level (snd (detect_esg_content_v2 sp)) = Some (1 / 2)" by simp_all
    let ?s = "length (sustainability_documents (discover_documents sp))"
    let ?d0 = "(if 0 < total_documents_found (discover_documents sp)
        then min (of_nat (total_documents_found (discover_documents sp)) * (1 / 10)) (3 / 10) else 0 :: rat)"
    have d0: "?d0 \<le> 3 / 10" by (rule doc_score_small)
    have ds: "(92 / 100 \<le> ?d0 + of_nat ?s * (15 / 100)) \<longrightarrow> 2 \<le> ?s"
      using report_arith(3) [of ?s ?d0] d0 by fastforce
    have f: "fst (detect_esg_content_v3 sp) =
        (25 / 10 \<le> min (3 / 2 + (?d0 + of_nat ?s * (15 / 100)) + 8 / 100) 10 \<or>
         7 / 10 \<le> min (1 / 2 + min (of_nat ?s * (1 / 10)) (2 / 10) + (0::rat)) 1)"
      unfolding detect_esg_content_v3_def Let_def
      using False sc cf
      by (simp add: split_beta q get_or_def)
    show ?thesis
      unfolding f report_arith(2) report_confidence nav tit
      using e ds by auto
  qed
qed

text \<open>
  C4 (as amended). For every page whose text is exactly
  \<^verbatim>\<open>Our Sustainability Report 2023 targets net zero by 2030.\<close> v3 finds the high-impact
  keyword \<^verbatim>\<open>sustainability report\<close>, the numerical goal \<^verbatim>\<open>net zero\<close> and the years 2023 and
  2030. The text alone does not make the decision true: the decision is true exactly
  when the page also has a navigation or title keyword match or at least two
  sustainability-related document links.
\<close>

theorem report_text_under_v3:
  assumes "s_text sp = report_text"
  shows "KwImpact ''sustainability report'' ''high''
           \<in> set (keywords_found (snd (detect_esg_content_v3 sp))) \<and>
         (\<exists>q. quantitative_patterns (snd (detect_esg_content_v3 sp)) = Some q \<and>
              numerical_goals q = [''net zero''] \<and>
              set (years_found q) = {''2023'', ''2030''}) \<and>
         fst (detect_esg_content_v3 sp) =
           (navigation_matches (snd (detect_esg_content_v3 sp)) \<noteq> [] \<or>
            title_matches (snd (detect_esg_content_v3 sp)) \<noteq> [] \<or>
            2 \<le> length (sustainability_documents (discover_documents sp)))"
  using v3_report [OF assms] by simp

lemma v2_nav_title:
  "navigation_matches (snd (detect_esg_content_v2 sp)) = nav_matches_of (Some (8 / 10)) sp"
  "title_matches (snd (detect_esg_content_v2 sp)) = title_matches_of (Some (9 / 10)) sp"
  unfolding detect_esg_content_v2_def Let_def by simp_all

lemma v3_nav_title:
  "navigation_matches (snd (detect_esg_content_v3 sp)) = nav_matches_of (Some (8 / 10)) sp"
  "title_matches (snd (detect_esg_content_v3 sp)) = title_matches_of (Some (9 / 10)) sp"
  unfolding detect_esg_content_v3_def Let_def by (simp_all add: split_beta v2_nav_title)

lemma report_page_value:
  "(case detect_esg_content_v3 report_page of
      (h, ev) \<Rightarrow> (h, sustainability_score ev, confidence_level ev))
     = (False, Some (158 / 100), Some (1 / 2))"
  by code_simp

lemma report_page_plain:
  "nav_matches_of c report_page = []" "title_matches_of c report_page = []"
  "sustainability_documents (discover_documents report_page) = []"
  by (simp_all add: nav_matches_of_def title_matches_of_def nav_elements_def find_title_def
      discover_documents_def anchors_def report_page_def List.map_filter_simps)

lemma titled_page_title: "title_matches_of (Some (9 / 10)) titled_report_page \<noteq> []"
  by code_simp

theorem report_text_under_v3_witness:
  "s_text report_page = report_text \<and> \<not> fst (detect_esg_content_v3 report_page) \<and>
   s_text titled_report_page = report_text \<and> fst (detect_esg_content_v3 titled_report_page)"
proof -
  have h1: "s_text report_page = report_text" by (simp add: report_page_def)
  have h2: "s_text titled_report_page = report_text" by (simp add: titled_report_page_def)
  have n1: "navigation_matches (snd (detect_esg_content_v3 report_page)) = []"
    "title_matches (snd (detect_esg_content_v3 report_page)) = []"
    by (simp_all only: v3_nav_title report_page_plain)
  have n2: "title_matches (snd (detect_esg_content_v3 titled_report_page)) \<noteq> []"
    unfolding v3_nav_title by (rule titled_page_title)
  from report_text_under_v3 [OF h1] n1 report_page_plain(3)
  have a: "\<not> fst (detect_esg_content_v3 report_page)" by simp
  from report_text_under_v3 [OF h2] n2
  have b: "fst (detect_esg_content_v3 titled_report_page)" by simp
  from h1 h2 a b show ?thesis by blast
qed

text \<open>C4 as stated fails: on the page that holds this text and nothing else v3 reports
  the score 1.58 and the confidence 0.5, both under the thresholds, and decides false.\<close>

theorem report_text_under_v3_counterexample:
  "s_text report_page = ''Our Sustainability Report 2023 targets net zero by 2030.'' \<and>
   \<not> fst (detect_esg_content_v3 report_page) \<and>
   sustainability_score (snd (detect_esg_content_v3 report_page)) = Some (158 / 100) \<and>
   confidence_level (snd (detect_esg_content_v3 report_page)) = Some (1 / 2)"
  using report_page_value
  by (cases "detect_esg_content_v3 report_page") (simp add: report_page_def report_text_def)

end
